theory Spec2Isabelle
  imports Main
begin

section \<open>The Fluxer gateway monitor (src/gateway.ts) as a shallow embedding\<close>

text \<open>
  The inbound pipeline of \<^verbatim>\<open>monitorFluxerProvider\<close> is embedded as pure functions that
  return the list of external calls they make (the trace, in program order) together with
  their result.

  Conventions.
  \<^item> A JavaScript string is a \<open>string\<close>; its elements stand for the code units that
    \<^verbatim>\<open>slice\<close>, \<^verbatim>\<open>trim\<close> and the regular expressions of the source count.
  \<^item> A number holding a time in milliseconds is an \<open>int\<close>; \<open>None\<close> stands for NaN.
  \<^item> An optional field or an absent collaborator (\<^verbatim>\<open>core?.channel?.x?.f\<close> undefined) is
    \<open>None\<close>.
  \<^item> A call of a collaborator either returns or throws; \<open>Throws e\<close> carries
    \<^verbatim>\<open>String(err)\<close>. An \<^verbatim>\<open>await\<close> of a rejected promise is a throw.
  \<^item> User ids are snowflakes (decimal digits), so that \<^verbatim>\<open>selfUserId\<close> is literal text inside
    the mention pattern built from it.
  \<^item> The firings of the 5 second typing timer between \<^verbatim>\<open>setInterval\<close> and
    \<^verbatim>\<open>clearInterval\<close> are not part of the trace.
\<close>

subsection \<open>Data\<close>

datatype 'a result = Returns 'a | Throws string

record attachment =
  url :: string
  content_type :: "string option"
  filename :: "string option"

text \<open>The decoded \<^verbatim>\<open>MessageCreate\<close> event (the cast at lines 84-93), \<open>author\<close> flattened.\<close>

record message =
  msg_id :: string
  channel_id :: string
  content :: string
  author_id :: string
  author_username :: string
  author_bot :: bool
  guild_id :: "string option"
  timestamp :: "string option"
  referenced_message :: "string option"
  attachments :: "attachment list option"

text \<open>\<^verbatim>\<open>cfg?.channels?.fluxer ?? {}\<close>: the keys the monitor reads.\<close>

record fluxerConfig =
  dm_policy :: "string option"
  dm_allowFrom :: "string list option"
  groupPolicy :: "string option"
  replyToMode :: "string option"
  mediaMaxMb :: "int option"

record opts =
  accountId :: "string option"
  config :: fluxerConfig
  hasLog :: bool

record agentRoute =
  route_sessionKey :: string
  route_accountId :: "string option"

record envelopeArgs =
  env_channel :: string
  env_from :: string
  env_timestamp :: "int option"
  env_envelope :: "(string \<times> string) list"
  env_body :: string

record ctxPayload =
  Body :: string
  BodyForAgent :: string
  RawBody :: string
  CommandBody :: string
  From :: string
  To :: string
  SessionKey :: string
  AccountId :: string
  ChatType :: string
  ConversationLabel :: string
  SenderName :: string
  SenderId :: string
  SenderUsername :: string
  GroupSubject :: "string option"
  Provider :: string
  Surface :: string
  WasMentioned :: "bool option"
  MessageSid :: string
  ReplyToId :: "string option"
  Timestamp :: "int option"
  MediaPath :: "string option"
  MediaUrl :: "string option"
  OriginatingChannel :: string
  OriginatingTo :: string

record payload =
  payload_text :: "string option"
  payload_mediaUrl :: "string option"

text \<open>
  What a reply dispatcher does with the two callbacks it is handed: it calls
  \<^verbatim>\<open>deliver(payload)\<close> and \<^verbatim>\<open>onError(err, info)\<close> some number of times, then returns or
  throws.
\<close>

datatype callback = Deliver payload | OnError string string

text \<open>
  The world as the monitor sees it at the time of a call: the optional collaborators
  under \<^verbatim>\<open>core\<close>, \<^verbatim>\<open>sendMessage\<close> of rest.ts (an HTTP request), and the clock.
  \<open>dateGetTime s\<close> is \<^verbatim>\<open>new Date(s).getTime()\<close>. The collaborators that take \<^verbatim>\<open>cfg\<close> have
  it built in.
\<close>

record env =
  readAllowFromStore :: "string list result option"
  upsertPairingRequest :: "(string \<Rightarrow> string \<Rightarrow> (string \<times> bool) result) option"
  buildMentionRegexes :: "string list result option"
  matchesMentionPatterns :: "(string \<Rightarrow> string list \<Rightarrow> bool result) option"
  fetchRemoteMedia :: "(string \<Rightarrow> (string \<times> string option) result) option"
  saveMediaBuffer :: "(string \<Rightarrow> string option \<Rightarrow> string \<Rightarrow> int \<Rightarrow> string result) option"
  resolveAgentRoute :: "(string \<Rightarrow> string \<Rightarrow> agentRoute result) option"
  resolveEnvelopeFormatOptions :: "(string \<times> string) list option result option"
  formatAgentEnvelope :: "(envelopeArgs \<Rightarrow> string option result) option"
  dispatchReplyWithBufferedBlockDispatcher ::
    "(ctxPayload \<Rightarrow> callback list \<times> unit result) option"
  dispatchInboundMessageWithBufferedDispatcher ::
    "(ctxPayload \<Rightarrow> callback list \<times> unit result) option"
  enqueueSystemEvent :: "(string \<Rightarrow> string \<Rightarrow> unit result) option"
  sendMessage :: "string \<Rightarrow> string \<Rightarrow> string option \<Rightarrow> string option \<Rightarrow> unit result"
  dateGetTime :: "string \<Rightarrow> int option"
  dateNow :: int

text \<open>The external calls, in the order the handler makes them.\<close>

datatype effect =
    ReadAllowFromStore
  | UpsertPairingRequest string string
  | SendMessage string string "string option" "string option"
  | BuildMentionRegexes
  | MatchesMentionPatterns string "string list"
  | FetchRemoteMedia string
  | SaveMediaBuffer string "string option" string int
  | ResolveAgentRoute string string
  | TriggerTyping string
  | SetInterval string
  | StopTyping
  | ResolveEnvelopeFormatOptions
  | FormatAgentEnvelope envelopeArgs
  | DispatchReplyWithBufferedBlockDispatcher ctxPayload
  | DispatchInboundMessageWithBufferedDispatcher ctxPayload
  | EnqueueSystemEvent string string
  | LogInfo string
  | LogWarn string

text \<open>How the promise of the \<^verbatim>\<open>MessageCreate\<close> handler settles.\<close>

datatype outcome = Returned | Rejected string

text \<open>
  The variables of \<^verbatim>\<open>monitorFluxerProvider\<close> that the handler closes over: they are set
  before \<^verbatim>\<open>gateway.connect()\<close>, except \<^verbatim>\<open>selfUserId\<close>, which the Ready event sets.
\<close>

record session =
  selfUserId :: "string option"
  startupMs :: int
  effectiveAllowFrom :: "string list"

subsection \<open>Session setup (lines 37-61 and 75-80)\<close>

definition startupGraceMs :: int where
  "startupGraceMs = 10000"

definition dmPolicy :: "fluxerConfig \<Rightarrow> string" where
  "dmPolicy fc = (case dm_policy fc of None \<Rightarrow> ''pairing'' | Some p \<Rightarrow> p)"

definition configAllowFrom :: "fluxerConfig \<Rightarrow> string list" where
  "configAllowFrom fc = (case dm_allowFrom fc of None \<Rightarrow> [] | Some xs \<Rightarrow> xs)"

text \<open>Lines 47-54: the one read of the pairing store, with its guard and its empty catch.\<close>

definition storeAllowFrom :: "env \<Rightarrow> effect list \<times> string list" where
  "storeAllowFrom e =
     (case readAllowFromStore e of
        None \<Rightarrow> ([], [])
      | Some r \<Rightarrow>
          (case r of
             Returns xs \<Rightarrow> ([ReadAllowFromStore], xs)
           | Throws err \<Rightarrow> ([ReadAllowFromStore], [])))"

definition monitorFluxerProvider :: "opts \<Rightarrow> env \<Rightarrow> effect list \<times> session" where
  "monitorFluxerProvider os e =
     (let (tr, store) = storeAllowFrom e
      in (tr, \<lparr>selfUserId = None, startupMs = dateNow e,
               effectiveAllowFrom = configAllowFrom (config os) @ store\<rparr>))"

definition onReady :: "session \<Rightarrow> string \<Rightarrow> session" where
  "onReady s uid = s\<lparr>selfUserId := Some uid\<rparr>"

definition isAllowed :: "session \<Rightarrow> string \<Rightarrow> bool" where
  "isAllowed s senderId =
     list_ex (\<lambda>entry. entry = senderId \<or> entry = ''*'') (effectiveAllowFrom s)"

subsection \<open>Text helpers\<close>

text \<open>\<^verbatim>\<open>String.prototype.trim\<close> and the class \<^verbatim>\<open>\s\<close>, on the code units below 256.\<close>

definition isWhiteSpace :: "char \<Rightarrow> bool" where
  "isWhiteSpace c =
     (c \<in> set [CHR 0x09, CHR 0x0A, CHR 0x0B, CHR 0x0C, CHR 0x0D, CHR 0x20, CHR 0xA0])"

definition trim :: "string \<Rightarrow> string" where
  "trim s = rev (dropWhile isWhiteSpace (rev (dropWhile isWhiteSpace s)))"

definition stripPrefix :: "string \<Rightarrow> string \<Rightarrow> string option" where
  "stripPrefix p s = (if take (length p) s = p then Some (drop (length p) s) else None)"

text \<open>
  One match of \<^verbatim>\<open><@!?ID>\<close> at the head of the text: the rest of the text after the match.
  The greedy \<^verbatim>\<open>!?\<close> tries the form with \<^verbatim>\<open>!\<close> first.
\<close>

definition matchMention :: "string \<Rightarrow> string \<Rightarrow> string option" where
  "matchMention uid s =
     (case stripPrefix (''<@!'' @ uid @ ''>'') s of
        Some r \<Rightarrow> Some r
      | None \<Rightarrow> stripPrefix (''<@'' @ uid @ ''>'') s)"

text \<open>\<^verbatim>\<open>new RegExp(`<@!?${selfUserId}>`).test(bodyText)\<close>: a match at some position.\<close>

fun testMention :: "string \<Rightarrow> string \<Rightarrow> bool" where
  "testMention uid [] = (matchMention uid [] \<noteq> None)"
| "testMention uid (c # cs) = (matchMention uid (c # cs) \<noteq> None \<or> testMention uid cs)"

text \<open>
  \<^verbatim>\<open>bodyText.replace(new RegExp(`<@!?${selfUserId}>\\s*`, "g"), "")\<close>: every match, with
  the white space that follows it, is removed, scanning from the left.
\<close>

function stripMentions :: "string \<Rightarrow> string \<Rightarrow> string" where
  "stripMentions uid [] = []"
| "stripMentions uid (c # cs) =
     (case matchMention uid (c # cs) of
        Some r \<Rightarrow> stripMentions uid (dropWhile isWhiteSpace r)
      | None \<Rightarrow> c # stripMentions uid cs)"
  by pat_completeness auto
termination
proof (relation "measure (\<lambda>(uid, s). length s)")
  show "wf (measure (\<lambda>(uid, s). length s))"
    by simp
next
  fix uid :: string and c :: char and cs r :: string
  assume m: "matchMention uid (c # cs) = Some r"
  have "length r < length (c # cs)"
    using m by (auto simp: matchMention_def stripPrefix_def split: option.splits if_splits)
  moreover have "length (dropWhile isWhiteSpace r) \<le> length r"
    by (rule length_dropWhile_le)
  ultimately show "((uid, dropWhile isWhiteSpace r), (uid, c # cs)) \<in> measure (\<lambda>(uid, s). length s)"
    by simp
next
  fix uid :: string and c :: char and cs :: string
  show "((uid, cs), (uid, c # cs)) \<in> measure (\<lambda>(uid, s). length s)"
    by simp
qed

subsection \<open>The filters of the handler (lines 95-109)\<close>

text \<open>Line 100: \<^verbatim>\<open>msg.timestamp ? new Date(msg.timestamp).getTime() : Date.now()\<close>.\<close>

definition eventTs :: "env \<Rightarrow> message \<Rightarrow> int option" where
  "eventTs e m =
     (case timestamp m of
        None \<Rightarrow> Some (dateNow e)
      | Some s \<Rightarrow> if s = [] then Some (dateNow e) else dateGetTime e s)"

text \<open>Line 101: \<^verbatim>\<open>eventTs < startupMs - startupGraceMs\<close>; a comparison with NaN is false.\<close>

definition isStale :: "session \<Rightarrow> int option \<Rightarrow> bool" where
  "isStale s ts = (case ts of None \<Rightarrow> False | Some t \<Rightarrow> t < startupMs s - startupGraceMs)"

definition isDm :: "message \<Rightarrow> bool" where
  "isDm m = (case guild_id m of None \<Rightarrow> True | Some g \<Rightarrow> g = [])"

definition bodyText :: "message \<Rightarrow> string" where
  "bodyText m = trim (content m)"

definition hasAttachments :: "message \<Rightarrow> bool" where
  "hasAttachments m = (case attachments m of None \<Rightarrow> False | Some as \<Rightarrow> as \<noteq> [])"

definition logInfo :: "opts \<Rightarrow> string \<Rightarrow> effect list" where
  "logInfo os s = (if hasLog os then [LogInfo s] else [])"

definition logWarn :: "opts \<Rightarrow> string \<Rightarrow> effect list" where
  "logWarn os s = (if hasLog os then [LogWarn s] else [])"

subsection \<open>DM policy (lines 112-141)\<close>

text \<open>
  Lines 125-132, the lines joined by a line feed. The first line begins with the shrimp
  emoji U+1F990, which is not a code unit below 256: it stands here as the four bytes of
  its UTF-8 form, and nothing below depends on them.
\<close>

definition pairingReply :: "string \<Rightarrow> string" where
  "pairingReply code =
     [CHR 0xF0, CHR 0x9F, CHR 0xA6, CHR 0x90] @ '' OpenClaw: access not configured.'' @ [CHR 0x0A]
     @ [CHR 0x0A]
     @ ''Pairing code: `'' @ code @ ''`'' @ [CHR 0x0A]
     @ [CHR 0x0A]
     @ ''Ask the bot owner to approve:'' @ [CHR 0x0A]
     @ ''`openclaw pairing approve fluxer <code>`''"

text \<open>Lines 117-137: the pairing challenge, inside its own try/catch.\<close>

definition issuePairingChallenge :: "opts \<Rightarrow> env \<Rightarrow> message \<Rightarrow> effect list" where
  "issuePairingChallenge os e m =
     (case upsertPairingRequest e of
        None \<Rightarrow> []
      | Some upsert \<Rightarrow>
          (case upsert (author_id m) (author_username m) of
             Throws err \<Rightarrow>
               [UpsertPairingRequest (author_id m) (author_username m)]
               @ logWarn os (''fluxer: pairing reply failed: '' @ err)
           | Returns (code, created) \<Rightarrow>
               if created then
                 (case sendMessage e (channel_id m) (pairingReply code) None None of
                    Returns u \<Rightarrow>
                      [UpsertPairingRequest (author_id m) (author_username m),
                       SendMessage (channel_id m) (pairingReply code) None None]
                  | Throws err \<Rightarrow>
                      [UpsertPairingRequest (author_id m) (author_username m),
                       SendMessage (channel_id m) (pairingReply code) None None]
                      @ logWarn os (''fluxer: pairing reply failed: '' @ err))
               else [UpsertPairingRequest (author_id m) (author_username m)]))"

text \<open>The gates return the calls they made and whether the handler goes on.\<close>

definition dmGate :: "opts \<Rightarrow> session \<Rightarrow> env \<Rightarrow> message \<Rightarrow> effect list \<times> bool" where
  "dmGate os s e m =
     (if dmPolicy (config os) = ''disabled'' then ([], False)
      else if dmPolicy (config os) \<noteq> ''open'' \<and> \<not> isAllowed s (author_id m) then
        (if dmPolicy (config os) = ''pairing'' then issuePairingChallenge os e m else [], False)
      else ([], True))"

subsection \<open>Group policy and mention gating (lines 144-164)\<close>

definition hasSelfMention :: "session \<Rightarrow> string \<Rightarrow> bool" where
  "hasSelfMention s body =
     (case selfUserId s of
        None \<Rightarrow> False
      | Some uid \<Rightarrow> if uid = [] then False else testMention uid body)"

text \<open>
  Lines 153-159. Only \<^verbatim>\<open>buildMentionRegexes\<close> is tested for presence; calling an absent
  \<^verbatim>\<open>matchesMentionPatterns\<close> throws a TypeError, which the empty catch swallows like any
  other exception.
\<close>

definition hasConfigMention :: "env \<Rightarrow> string \<Rightarrow> effect list \<times> bool" where
  "hasConfigMention e body =
     (case buildMentionRegexes e of
        None \<Rightarrow> ([], False)
      | Some b \<Rightarrow>
          (case b of
             Throws err \<Rightarrow> ([BuildMentionRegexes], False)
           | Returns regexes \<Rightarrow>
               (case matchesMentionPatterns e of
                  None \<Rightarrow> ([BuildMentionRegexes], False)
                | Some matches \<Rightarrow>
                    (case matches body regexes of
                       Throws err \<Rightarrow>
                         ([BuildMentionRegexes, MatchesMentionPatterns body regexes], False)
                     | Returns v \<Rightarrow>
                         ([BuildMentionRegexes, MatchesMentionPatterns body regexes], v)))))"

definition groupGate :: "opts \<Rightarrow> session \<Rightarrow> env \<Rightarrow> message \<Rightarrow> effect list \<times> bool" where
  "groupGate os s e m =
     (if (case groupPolicy (config os) of None \<Rightarrow> ''open'' | Some g \<Rightarrow> g) = ''disabled''
      then ([], False)
      else (let (tr, hasConfig) = hasConfigMention e (bodyText m)
            in (tr, hasSelfMention s (bodyText m) \<or> hasConfig)))"

subsection \<open>Media materialization (lines 166-184)\<close>

definition mediaMaxBytes :: "fluxerConfig \<Rightarrow> int" where
  "mediaMaxBytes fc = (case mediaMaxMb fc of None \<Rightarrow> 25 | Some mb \<Rightarrow> mb) * 1024 * 1024"

text \<open>The body of the try block for the attachment \<open>att\<close> (\<^verbatim>\<open>msg.attachments[0]\<close>).\<close>

definition downloadAttachment :: "opts \<Rightarrow> env \<Rightarrow> attachment \<Rightarrow> effect list \<times> string option" where
  "downloadAttachment os e att =
     (case (fetchRemoteMedia e, saveMediaBuffer e) of
        (Some fetch, Some save) \<Rightarrow>
          (case fetch (url att) of
             Throws err \<Rightarrow>
               ([FetchRemoteMedia (url att)]
                @ logWarn os (''fluxer: media download failed: '' @ err), None)
           | Returns (buffer, contentType) \<Rightarrow>
               (let ct = (case contentType of None \<Rightarrow> content_type att | Some t \<Rightarrow> Some t);
                    call = SaveMediaBuffer buffer ct ''inbound'' (mediaMaxBytes (config os))
                in case save buffer ct ''inbound'' (mediaMaxBytes (config os)) of
                     Throws err \<Rightarrow>
                       ([FetchRemoteMedia (url att), call]
                        @ logWarn os (''fluxer: media download failed: '' @ err), None)
                   | Returns path \<Rightarrow> ([FetchRemoteMedia (url att), call], Some path)))
      | _ \<Rightarrow> ([], None))"

definition materializeMedia :: "opts \<Rightarrow> env \<Rightarrow> message \<Rightarrow> effect list \<times> string option" where
  "materializeMedia os e m =
     (case attachments m of
        None \<Rightarrow> ([], None)
      | Some [] \<Rightarrow> ([], None)
      | Some (att # others) \<Rightarrow> downloadAttachment os e att)"

subsection \<open>Session routing and body cleaning (lines 186-220)\<close>

definition fallbackSessionKey :: "message \<Rightarrow> string" where
  "fallbackSessionKey m =
     (if isDm m then ''agent:main:main'' else ''agent:main:fluxer:channel:'' @ channel_id m)"

definition resolveSession :: "env \<Rightarrow> message \<Rightarrow> effect list \<times> string \<times> agentRoute option" where
  "resolveSession e m =
     (let kind = (if isDm m then ''direct'' else ''channel'');
          peer = (if isDm m then author_id m else channel_id m)
      in case resolveAgentRoute e of
           None \<Rightarrow> ([], fallbackSessionKey m, None)
         | Some resolve \<Rightarrow>
             (case resolve kind peer of
                Returns route \<Rightarrow> ([ResolveAgentRoute kind peer], route_sessionKey route, Some route)
              | Throws err \<Rightarrow> ([ResolveAgentRoute kind peer], fallbackSessionKey m, None)))"

definition cleanBody :: "session \<Rightarrow> message \<Rightarrow> string" where
  "cleanBody s m =
     (case selfUserId s of
        None \<Rightarrow> bodyText m
      | Some uid \<Rightarrow> if uid = [] then bodyText m else trim (stripMentions uid (bodyText m)))"

definition fromLabel :: "message \<Rightarrow> string" where
  "fromLabel m = (if isDm m then author_username m else ''#'' @ channel_id m)"

subsection \<open>Typing indicator and envelope (lines 222-271)\<close>

text \<open>Lines 223-230: \<^verbatim>\<open>sendTyping()\<close>, whose rejection is swallowed, then \<^verbatim>\<open>setInterval\<close>.\<close>

definition startTyping :: "message \<Rightarrow> effect list" where
  "startTyping m = [TriggerTyping (channel_id m), SetInterval (channel_id m)]"

text \<open>
  Lines 237-244. Neither call is inside a try block of its own: an exception leaves the
  handler's outer try block.
\<close>

definition formattedBody :: "session \<Rightarrow> env \<Rightarrow> message \<Rightarrow> effect list \<times> string result" where
  "formattedBody s e m =
     (let fallback = ''[Fluxer message from '' @ fromLabel m @ '']'' @ [CHR 0x0A] @ cleanBody s m in
      case (case resolveEnvelopeFormatOptions e of
              None \<Rightarrow> ([], Returns [])
            | Some r \<Rightarrow>
                (case r of
                   Throws err \<Rightarrow> ([ResolveEnvelopeFormatOptions], Throws err)
                 | Returns None \<Rightarrow> ([ResolveEnvelopeFormatOptions], Returns [])
                 | Returns (Some options) \<Rightarrow> ([ResolveEnvelopeFormatOptions], Returns options)))
      of
        (tr, Throws err) \<Rightarrow> (tr, Throws err)
      | (tr, Returns envelopeOptions) \<Rightarrow>
          (case formatAgentEnvelope e of
             None \<Rightarrow> (tr, Returns fallback)
           | Some format \<Rightarrow>
               (let args = \<lparr>env_channel = ''Fluxer'', env_from = fromLabel m,
                            env_timestamp = eventTs e m, env_envelope = envelopeOptions,
                            env_body = cleanBody s m\<rparr>
                in case format args of
                     Throws err \<Rightarrow> (tr @ [FormatAgentEnvelope args], Throws err)
                   | Returns None \<Rightarrow> (tr @ [FormatAgentEnvelope args], Returns fallback)
                   | Returns (Some b) \<Rightarrow> (tr @ [FormatAgentEnvelope args], Returns b))))"

definition buildCtxPayload ::
  "opts \<Rightarrow> session \<Rightarrow> env \<Rightarrow> message \<Rightarrow> string \<Rightarrow> string \<Rightarrow> agentRoute option \<Rightarrow> string option
     \<Rightarrow> ctxPayload" where
  "buildCtxPayload os s e m body sessionKey route mediaPath =
     \<lparr>Body = body,
      BodyForAgent = cleanBody s m,
      RawBody = bodyText m,
      CommandBody = cleanBody s m,
      From = (if isDm m then ''fluxer:'' @ author_id m else ''fluxer:channel:'' @ channel_id m),
      To = channel_id m,
      SessionKey = sessionKey,
      AccountId =
        (case (case route of None \<Rightarrow> None | Some r \<Rightarrow> route_accountId r) of
           Some a \<Rightarrow> a
         | None \<Rightarrow> (case accountId os of None \<Rightarrow> ''default'' | Some a \<Rightarrow> a)),
      ChatType = (if isDm m then ''direct'' else ''channel''),
      ConversationLabel = fromLabel m,
      SenderName = author_username m,
      SenderId = author_id m,
      SenderUsername = author_username m,
      GroupSubject = (if isDm m then None else Some (channel_id m)),
      Provider = ''fluxer'',
      Surface = ''fluxer'',
      WasMentioned = (if \<not> isDm m then Some True else None),
      MessageSid = msg_id m,
      ReplyToId = referenced_message m,
      Timestamp = eventTs e m,
      MediaPath = mediaPath,
      MediaUrl = mediaPath,
      OriginatingChannel = ''fluxer'',
      OriginatingTo = channel_id m\<rparr>"

subsection \<open>Staged dispatch (lines 273-351)\<close>

definition replyToModeOf :: "fluxerConfig \<Rightarrow> string" where
  "replyToModeOf fc = (case replyToMode fc of None \<Rightarrow> ''off'' | Some r \<Rightarrow> r)"

text \<open>The \<^verbatim>\<open>deliver\<close> callback of both dispatchers (lines 281-287 and 316-322).\<close>

definition deliver :: "opts \<Rightarrow> message \<Rightarrow> payload \<Rightarrow> effect" where
  "deliver os m p =
     SendMessage (channel_id m)
       (case payload_text p of None \<Rightarrow> [] | Some t \<Rightarrow> t)
       (if replyToModeOf (config os) \<noteq> ''off'' then Some (msg_id m) else None)
       (payload_mediaUrl p)"

fun runCallbacks :: "opts \<Rightarrow> message \<Rightarrow> callback list \<Rightarrow> effect list" where
  "runCallbacks os m [] = []"
| "runCallbacks os m (Deliver p # cbs) = deliver os m p # runCallbacks os m cbs"
| "runCallbacks os m (OnError err kind # cbs) =
     logWarn os (''fluxer: '' @ kind @ '' reply failed: '' @ err) @ runCallbacks os m cbs"

definition systemEventText :: "session \<Rightarrow> message \<Rightarrow> nat \<Rightarrow> string" where
  "systemEventText s m n =
     ''Fluxer message from '' @ author_username m @ '': '' @ take n (cleanBody s m)"

text \<open>
  Each stage returns its calls and whether the handler returned inside it (\<open>True\<close>) or
  control went on to the code after its try/catch (\<open>False\<close>).
\<close>

definition blockDispatchStage ::
  "opts \<Rightarrow> session \<Rightarrow> env \<Rightarrow> message \<Rightarrow> ctxPayload \<Rightarrow> effect list \<times> bool" where
  "blockDispatchStage os s e m ctx =
     (case dispatchReplyWithBufferedBlockDispatcher e of
        None \<Rightarrow> ([], False)
      | Some dispatch \<Rightarrow>
          (case dispatch ctx of
             (cbs, Throws err) \<Rightarrow>
               (DispatchReplyWithBufferedBlockDispatcher ctx # runCallbacks os m cbs
                @ logWarn os (''fluxer: buffered dispatch failed: '' @ err), False)
           | (cbs, Returns u) \<Rightarrow>
               (let done = DispatchReplyWithBufferedBlockDispatcher ctx # runCallbacks os m cbs
                      @ [StopTyping]
                      @ logInfo os (''fluxer: dispatched reply to '' @ channel_id m);
                    event = EnqueueSystemEvent (systemEventText s m 160) (SessionKey ctx)
                in if isDm m then (done, True)
                   else (case enqueueSystemEvent e of
                           None \<Rightarrow> (done, True)
                         | Some enqueue \<Rightarrow>
                             (case enqueue (systemEventText s m 160) (SessionKey ctx) of
                                Returns u' \<Rightarrow> (done @ [event], True)
                              | Throws err \<Rightarrow>
                                  (done @ [event]
                                   @ logWarn os (''fluxer: buffered dispatch failed: '' @ err),
                                   False))))))"

definition messageDispatchStage ::
  "opts \<Rightarrow> env \<Rightarrow> message \<Rightarrow> ctxPayload \<Rightarrow> effect list \<times> bool" where
  "messageDispatchStage os e m ctx =
     (case dispatchInboundMessageWithBufferedDispatcher e of
        None \<Rightarrow> ([], False)
      | Some dispatch \<Rightarrow>
          (case dispatch ctx of
             (cbs, Throws err) \<Rightarrow>
               (DispatchInboundMessageWithBufferedDispatcher ctx # runCallbacks os m cbs
                @ logWarn os (''fluxer: fallback dispatch failed: '' @ err), False)
           | (cbs, Returns u) \<Rightarrow>
               (DispatchInboundMessageWithBufferedDispatcher ctx # runCallbacks os m cbs
                @ [StopTyping]
                @ logInfo os (''fluxer: dispatched reply (fallback) to '' @ channel_id m), True)))"

text \<open>Lines 337-351: the last resort, with its catch and its \<^verbatim>\<open>finally\<close>.\<close>

definition systemEventStage ::
  "opts \<Rightarrow> session \<Rightarrow> env \<Rightarrow> message \<Rightarrow> ctxPayload \<Rightarrow> effect list" where
  "systemEventStage os s e m ctx =
     (case enqueueSystemEvent e of
        Some enqueue \<Rightarrow>
          (case enqueue (systemEventText s m 500) (SessionKey ctx) of
             Returns u \<Rightarrow>
               EnqueueSystemEvent (systemEventText s m 500) (SessionKey ctx)
               # logInfo os (''fluxer: injected system event for '' @ channel_id m)
           | Throws err \<Rightarrow>
               EnqueueSystemEvent (systemEventText s m 500) (SessionKey ctx)
               # logWarn os (''fluxer: last resort dispatch failed: '' @ err))
      | None \<Rightarrow>
          logWarn os (''fluxer: no dispatch mechanism available for message from ''
                      @ author_username m))
     @ [StopTyping]"

definition dispatchChain ::
  "opts \<Rightarrow> session \<Rightarrow> env \<Rightarrow> message \<Rightarrow> ctxPayload \<Rightarrow> effect list \<times> unit result" where
  "dispatchChain os s e m ctx =
     (let (tr1, returned1) = blockDispatchStage os s e m ctx in
      if returned1 then (tr1, Returns ())
      else (let (tr2, returned2) = messageDispatchStage os e m ctx in
            if returned2 then (tr1 @ tr2, Returns ())
            else (tr1 @ tr2 @ systemEventStage os s e m ctx, Returns ())))"

subsection \<open>The \<^verbatim>\<open>MessageCreate\<close> handler (lines 82-357)\<close>

text \<open>Lines 186-351: what follows media materialization, given its \<^verbatim>\<open>mediaPath\<close>.\<close>

definition dispatchWithMedia ::
  "opts \<Rightarrow> session \<Rightarrow> env \<Rightarrow> message \<Rightarrow> string option \<Rightarrow> effect list \<times> unit result" where
  "dispatchWithMedia os s e m mediaPath =
     (let (trRoute, sessionKey, route) = resolveSession e m;
          (trBody, body) = formattedBody s e m
      in case body of
           Throws err \<Rightarrow> (trRoute @ startTyping m @ trBody, Throws err)
         | Returns b \<Rightarrow>
             (let (trDispatch, r) =
                    dispatchChain os s e m (buildCtxPayload os s e m b sessionKey route mediaPath)
              in (trRoute @ startTyping m @ trBody @ trDispatch, r)))"

text \<open>Lines 166-351, for a message that passed the gates.\<close>

definition processMessage ::
  "opts \<Rightarrow> session \<Rightarrow> env \<Rightarrow> message \<Rightarrow> effect list \<times> unit result" where
  "processMessage os s e m =
     (let (trMedia, mediaPath) = materializeMedia os e m;
          (tr, r) = dispatchWithMedia os s e m mediaPath
      in (trMedia @ tr, r))"

text \<open>Lines 111-351: the policy gate of the conversation kind, then the rest.\<close>

definition policyAndDispatch ::
  "opts \<Rightarrow> session \<Rightarrow> env \<Rightarrow> message \<Rightarrow> effect list \<times> unit result" where
  "policyAndDispatch os s e m =
     (let (trGate, proceed) = (if isDm m then dmGate os s e m else groupGate os s e m)
      in if \<not> proceed then (trGate, Returns ())
         else (let (tr, r) = processMessage os s e m in (trGate @ tr, r)))"

text \<open>The body of the outer try block (lines 84-351).\<close>

definition tryBlock :: "opts \<Rightarrow> session \<Rightarrow> env \<Rightarrow> message \<Rightarrow> effect list \<times> unit result" where
  "tryBlock os s e m =
     (if Some (author_id m) = selfUserId s then ([], Returns ())
      else if author_bot m then ([], Returns ())
      else if isStale s (eventTs e m) then ([], Returns ())
      else if bodyText m = [] \<and> \<not> hasAttachments m then ([], Returns ())
      else policyAndDispatch os s e m)"

text \<open>
  The outer catch clause (lines 352-356). Its first statement is \<^verbatim>\<open>stopTyping()\<close>, but
  \<^verbatim>\<open>stopTyping\<close> is a \<^verbatim>\<open>const\<close> declared inside the try block (line 231), and a \<^verbatim>\<open>const\<close>
  is scoped to the block that declares it: in the catch clause the name is bound nowhere
  (neither the handler, \<^verbatim>\<open>monitorFluxerProvider\<close> nor the module declares it). Evaluating
  it throws a ReferenceError, so the two reporting calls after it are not reached and the
  handler's promise rejects.
\<close>

definition catchClause :: "string \<Rightarrow> effect list \<times> outcome" where
  "catchClause err = ([], Rejected ''ReferenceError: stopTyping is not defined'')"

definition withOuterCatch :: "effect list \<times> unit result \<Rightarrow> effect list \<times> outcome" where
  "withOuterCatch body =
     (case body of
        (tr, Returns u) \<Rightarrow> (tr, Returned)
      | (tr, Throws err) \<Rightarrow> (let (tr', out) = catchClause err in (tr @ tr', out)))"

definition handleMessageCreate :: "opts \<Rightarrow> session \<Rightarrow> env \<Rightarrow> message \<Rightarrow> effect list \<times> outcome" where
  "handleMessageCreate os s e m = withOuterCatch (tryBlock os s e m)"

subsection \<open>Vocabulary of the properties\<close>

text \<open>The message is neither suppressed, stale nor empty: it reaches line 111.\<close>

definition reachesPolicyGate :: "session \<Rightarrow> env \<Rightarrow> message \<Rightarrow> bool" where
  "reachesPolicyGate s e m =
     (Some (author_id m) \<noteq> selfUserId s \<and> \<not> author_bot m \<and> \<not> isStale s (eventTs e m)
      \<and> \<not> (bodyText m = [] \<and> \<not> hasAttachments m))"

text \<open>A call that starts one of the three dispatch stages.\<close>

fun isDispatchAttempt :: "effect \<Rightarrow> bool" where
  "isDispatchAttempt (DispatchReplyWithBufferedBlockDispatcher ctx) = True"
| "isDispatchAttempt (DispatchInboundMessageWithBufferedDispatcher ctx) = True"
| "isDispatchAttempt (EnqueueSystemEvent t k) = True"
| "isDispatchAttempt x = False"

text \<open>A dispatcher that is absent, or whose call on \<open>ctx\<close> throws.\<close>

definition unavailableOrThrows ::
  "(ctxPayload \<Rightarrow> callback list \<times> unit result) option \<Rightarrow> ctxPayload \<Rightarrow> bool" where
  "unavailableOrThrows d ctx =
     (case d of
        None \<Rightarrow> True
      | Some dispatch \<Rightarrow> (case snd (dispatch ctx) of Throws err \<Rightarrow> True | Returns u \<Rightarrow> False))"

subsection \<open>Concrete inputs\<close>

text \<open>
  A world with no optional collaborator, in which every send succeeds, no timestamp
  parses and the clock reads 100000; a configuration with every key absent but the DM
  policy; a session that started at 50000 and knows its identity; a direct and a group
  message.
\<close>

definition quietEnv :: env where
  "quietEnv =
     \<lparr>readAllowFromStore = None, upsertPairingRequest = None, buildMentionRegexes = None,
      matchesMentionPatterns = None, fetchRemoteMedia = None, saveMediaBuffer = None,
      resolveAgentRoute = None, resolveEnvelopeFormatOptions = None,
      formatAgentEnvelope = None, dispatchReplyWithBufferedBlockDispatcher = None,
      dispatchInboundMessageWithBufferedDispatcher = None, enqueueSystemEvent = None,
      sendMessage = (\<lambda>target body replyTo media. Returns ()),
      dateGetTime = (\<lambda>s. None), dateNow = 100000\<rparr>"

definition optsWithPolicy :: "string option \<Rightarrow> opts" where
  "optsWithPolicy policy =
     \<lparr>accountId = None,
      config = \<lparr>dm_policy = policy, dm_allowFrom = None, groupPolicy = None,
                replyToMode = None, mediaMaxMb = None\<rparr>,
      hasLog = True\<rparr>"

definition readySession :: session where
  "readySession = \<lparr>selfUserId = Some ''12345'', startupMs = 50000, effectiveAllowFrom = []\<rparr>"

definition directMessage :: message where
  "directMessage =
     \<lparr>msg_id = ''m1'', channel_id = ''c1'', content = ''hello'', author_id = ''u1'',
      author_username = ''alice'', author_bot = False, guild_id = None, timestamp = None,
      referenced_message = None, attachments = None\<rparr>"

definition groupMessage :: message where
  "groupMessage = directMessage\<lparr>guild_id := Some ''g1''\<rparr>"

definition mentionMessage :: message where
  "mentionMessage = groupMessage\<lparr>content := ''hello <@!12345> world''\<rparr>"

definition replyMessage :: message where
  "replyMessage = directMessage\<lparr>referenced_message := Some ''m0''\<rparr>"

definition oldMessage :: message where
  "oldMessage = directMessage\<lparr>timestamp := Some ''2020-01-01T00:00:00.000Z''\<rparr>"

definition malformedMessage :: message where
  "malformedMessage = directMessage\<lparr>timestamp := Some ''not a date''\<rparr>"

definition attachmentMessage :: message where
  "attachmentMessage =
     directMessage\<lparr>attachments :=
       Some [\<lparr>url = ''https://cdn.example/a.png'', content_type = Some ''image/png'',
              filename = None\<rparr>,
             \<lparr>url = ''https://cdn.example/b.png'', content_type = None, filename = None\<rparr>]\<rparr>"

text \<open>Worlds: a timestamp that parses to 1000; a pairing store holding \<open>u1\<close> or nothing.\<close>

definition parsingEnv :: env where
  "parsingEnv = quietEnv\<lparr>dateGetTime := (\<lambda>s. Some 1000)\<rparr>"

definition emptyStoreEnv :: env where
  "emptyStoreEnv = quietEnv\<lparr>readAllowFromStore := Some (Returns [])\<rparr>"

definition approvedStoreEnv :: env where
  "approvedStoreEnv = quietEnv\<lparr>readAllowFromStore := Some (Returns [''u1''])\<rparr>"

text \<open>Worlds: a pairing store that creates a request, and one that finds it pending.\<close>

definition firstChallengeEnv :: env where
  "firstChallengeEnv =
     quietEnv\<lparr>upsertPairingRequest := Some (\<lambda>sender name. Returns (''K7Q2'', True))\<rparr>"

definition secondChallengeEnv :: env where
  "secondChallengeEnv =
     quietEnv\<lparr>upsertPairingRequest := Some (\<lambda>sender name. Returns (''K7Q2'', False))\<rparr>"

text \<open>
  Worlds: a block dispatcher that delivers one reply; an envelope formatter that throws; a
  block dispatcher that succeeds where the system event sink throws; both dispatchers
  throwing with a working sink; a media store that refuses the buffer.
\<close>

definition replyingEnv :: env where
  "replyingEnv =
     quietEnv\<lparr>dispatchReplyWithBufferedBlockDispatcher :=
       Some (\<lambda>ctx. ([Deliver \<lparr>payload_text = Some ''hi'', payload_mediaUrl = None\<rparr>],
                     Returns ()))\<rparr>"

definition envelopeFailsEnv :: env where
  "envelopeFailsEnv =
     quietEnv\<lparr>formatAgentEnvelope := Some (\<lambda>args. Throws ''Error: format failed'')\<rparr>"

definition sinkFailsEnv :: env where
  "sinkFailsEnv =
     quietEnv\<lparr>dispatchReplyWithBufferedBlockDispatcher := Some (\<lambda>ctx. ([], Returns ())),
              enqueueSystemEvent := Some (\<lambda>t k. Throws ''Error: queue closed'')\<rparr>"

definition dispatchersFailEnv :: env where
  "dispatchersFailEnv =
     quietEnv\<lparr>dispatchReplyWithBufferedBlockDispatcher :=
                Some (\<lambda>ctx. ([], Throws ''Error: no agent'')),
              dispatchInboundMessageWithBufferedDispatcher :=
                Some (\<lambda>ctx. ([], Throws ''Error: no agent'')),
              enqueueSystemEvent := Some (\<lambda>t k. Returns ())\<rparr>"

definition mediaTooLargeEnv :: env where
  "mediaTooLargeEnv =
     replyingEnv\<lparr>fetchRemoteMedia := Some (\<lambda>u. Returns (''PNG'', None)),
                 saveMediaBuffer := Some (\<lambda>b ct d n. Throws ''Error: media exceeds limit'')\<rparr>"

definition directCtx :: ctxPayload where
  "directCtx =
     buildCtxPayload (optsWithPolicy (Some ''open'')) readySession quietEnv directMessage
       (''[Fluxer message from alice]'' @ [CHR 0x0A] @ ''hello'') ''agent:main:main'' None None"

text \<open>
  A configuration with policy \<^verbatim>\<open>allowlist\<close> and given configured entries; the session
  before the Ready event; a mention collaborator with the one pattern \<open>claw\<close>, matched
  at the start of the text, and a group message it matches; a world whose clock reads
  39999.
\<close>

definition allowlistOpts :: "string list \<Rightarrow> opts" where
  "allowlistOpts entries =
     \<lparr>accountId = None,
      config = \<lparr>dm_policy = Some ''allowlist'', dm_allowFrom = Some entries,
                groupPolicy = None, replyToMode = None, mediaMaxMb = None\<rparr>,
      hasLog = True\<rparr>"

definition unreadySession :: session where
  "unreadySession = readySession\<lparr>selfUserId := None\<rparr>"

definition mentionPatternEnv :: env where
  "mentionPatternEnv =
     quietEnv\<lparr>buildMentionRegexes := Some (Returns [''claw'']),
              matchesMentionPatterns :=
                Some (\<lambda>body regexes. Returns (list_ex (\<lambda>r. take (length r) body = r) regexes))\<rparr>"

definition patternMessage :: message where
  "patternMessage = groupMessage\<lparr>content := ''claw hi''\<rparr>"

definition clockSetBackEnv :: env where
  "clockSetBackEnv = quietEnv\<lparr>dateNow := 39999\<rparr>"

section \<open>Auxiliary facts\<close>

text \<open>What each part of the handler can put into the trace, and how the parts compose.\<close>

lemma handle_not_reaching:
  "\<not> reachesPolicyGate s e m \<Longrightarrow> handleMessageCreate os s e m = ([], Returned)"
  by (auto simp: reachesPolicyGate_def handleMessageCreate_def tryBlock_def withOuterCatch_def)

lemma handle_reaching:
  "reachesPolicyGate s e m \<Longrightarrow>
     handleMessageCreate os s e m = withOuterCatch (policyAndDispatch os s e m)"
  by (auto simp: reachesPolicyGate_def handleMessageCreate_def tryBlock_def)

lemma policy_denied:
  "isDm m \<Longrightarrow> dmGate os s e m = (tr, False) \<Longrightarrow>
     withOuterCatch (policyAndDispatch os s e m) = (tr, Returned)"
  by (simp add: policyAndDispatch_def withOuterCatch_def)

lemma policy_granted:
  "isDm m \<Longrightarrow> dmGate os s e m = ([], True) \<Longrightarrow>
     policyAndDispatch os s e m = processMessage os s e m"
  by (simp add: policyAndDispatch_def split: prod.splits)

lemma hasConfigMention_no_dispatch:
  "filter isDispatchAttempt (fst (hasConfigMention e b)) = []"
  by (simp add: hasConfigMention_def split: option.splits result.splits)

lemma pairingReply_inj: "pairingReply c = pairingReply c' \<longleftrightarrow> c = c'"
  by (simp add: pairingReply_def)

lemma runCallbacks_effects:
  "x \<in> set (runCallbacks os m cbs) \<Longrightarrow>
     (\<exists>body media. x = deliver os m \<lparr>payload_text = body, payload_mediaUrl = media\<rparr>)
     \<or> (\<exists>w. x = LogWarn w)"
proof (induction os m cbs rule: runCallbacks.induct)
  case (1 os m)
  then show ?case by simp
next
  case (2 os m p cbs)
  then show ?case
    by (cases p) (auto simp: deliver_def)
next
  case (3 os m err kind cbs)
  then show ?case
    by (auto simp: logWarn_def split: if_splits)
qed

lemma runCallbacks_not_dispatch [simp]:
  "DispatchReplyWithBufferedBlockDispatcher c \<notin> set (runCallbacks os m cbs)"
  "DispatchInboundMessageWithBufferedDispatcher c \<notin> set (runCallbacks os m cbs)"
  "EnqueueSystemEvent t k \<notin> set (runCallbacks os m cbs)"
  "StopTyping \<notin> set (runCallbacks os m cbs)"
  "ReadAllowFromStore \<notin> set (runCallbacks os m cbs)"
  using runCallbacks_effects [of _ os m cbs] by (auto simp: deliver_def)

lemma runCallbacks_sends:
  "SendMessage target body replyTo media \<in> set (runCallbacks os m cbs) \<Longrightarrow>
     target = channel_id m
     \<and> replyTo = (if replyToModeOf (config os) \<noteq> ''off'' then Some (msg_id m) else None)"
  using runCallbacks_effects [of "SendMessage target body replyTo media" os m cbs]
  by (auto simp: deliver_def)

lemma logs_simps [simp]:
  "DispatchReplyWithBufferedBlockDispatcher c \<notin> set (logWarn os w)"
  "DispatchInboundMessageWithBufferedDispatcher c \<notin> set (logWarn os w)"
  "EnqueueSystemEvent t k \<notin> set (logWarn os w)"
  "StopTyping \<notin> set (logWarn os w)"
  "ReadAllowFromStore \<notin> set (logWarn os w)"
  "SendMessage target body replyTo media \<notin> set (logWarn os w)"
  "DispatchReplyWithBufferedBlockDispatcher c \<notin> set (logInfo os w)"
  "DispatchInboundMessageWithBufferedDispatcher c \<notin> set (logInfo os w)"
  "EnqueueSystemEvent t k \<notin> set (logInfo os w)"
  "StopTyping \<notin> set (logInfo os w)"
  "ReadAllowFromStore \<notin> set (logInfo os w)"
  "SendMessage target body replyTo media \<notin> set (logInfo os w)"
  by (simp_all add: logWarn_def logInfo_def)



lemma dispatchChain_returns: "snd (dispatchChain os s e m ctx) = Returns ()"
  by (cases "blockDispatchStage os s e m ctx"; cases "messageDispatchStage os e m ctx")
    (simp add: dispatchChain_def)


lemma count_runCallbacks [simp]:
  "count_list (runCallbacks os m cbs) (DispatchReplyWithBufferedBlockDispatcher c) = 0"
  "count_list (runCallbacks os m cbs) (DispatchInboundMessageWithBufferedDispatcher c) = 0"
  "count_list (logWarn os w) (DispatchReplyWithBufferedBlockDispatcher c) = 0"
  "count_list (logWarn os w) (DispatchInboundMessageWithBufferedDispatcher c) = 0"
  "count_list (logInfo os w) (DispatchReplyWithBufferedBlockDispatcher c) = 0"
  "count_list (logInfo os w) (DispatchInboundMessageWithBufferedDispatcher c) = 0"
  by (simp_all add: count_list_0_iff)




lemma blockDispatchStage_calls:
  "DispatchReplyWithBufferedBlockDispatcher c \<in> set (fst (blockDispatchStage os s e m ctx))
     \<Longrightarrow> c = ctx"
  "DispatchInboundMessageWithBufferedDispatcher c \<notin> set (fst (blockDispatchStage os s e m ctx))"
  by (auto simp: blockDispatchStage_def Let_def
      split: option.splits result.splits prod.splits if_splits)

lemma messageDispatchStage_calls:
  "DispatchInboundMessageWithBufferedDispatcher c \<in> set (fst (messageDispatchStage os e m ctx))
     \<Longrightarrow> c = ctx"
  "DispatchReplyWithBufferedBlockDispatcher c \<notin> set (fst (messageDispatchStage os e m ctx))"
  by (auto simp: messageDispatchStage_def
      split: option.splits result.splits prod.splits if_splits)

lemma systemEventStage_calls:
  "DispatchInboundMessageWithBufferedDispatcher c \<notin> set (systemEventStage os s e m ctx)"
  "DispatchReplyWithBufferedBlockDispatcher c \<notin> set (systemEventStage os s e m ctx)"
  by (auto simp: systemEventStage_def split: option.splits result.splits)

lemma dispatchChain_trace:
  "set (fst (dispatchChain os s e m ctx))
     \<subseteq> set (fst (blockDispatchStage os s e m ctx)) \<union> set (fst (messageDispatchStage os e m ctx))
       \<union> set (systemEventStage os s e m ctx)"
  by (auto simp: dispatchChain_def split: prod.splits if_splits)

lemma dispatchChain_calls:
  "DispatchReplyWithBufferedBlockDispatcher c \<in> set (fst (dispatchChain os s e m ctx))
   \<or> DispatchInboundMessageWithBufferedDispatcher c \<in> set (fst (dispatchChain os s e m ctx))
   \<Longrightarrow> c = ctx"
  using dispatchChain_trace [of os s e m ctx] blockDispatchStage_calls [of c os s e m ctx]
    messageDispatchStage_calls [of c os e m ctx] systemEventStage_calls [of c os s e m ctx]
  by auto

lemma dispatchChain_sends:
  "SendMessage target body replyTo media \<in> set (fst (dispatchChain os s e m ctx)) \<Longrightarrow>
     target = channel_id m
     \<and> replyTo = (if replyToModeOf (config os) \<noteq> ''off'' then Some (msg_id m) else None)"
proof -
  assume a: "SendMessage target body replyTo media \<in> set (fst (dispatchChain os s e m ctx))"
  have "\<exists>cbs. SendMessage target body replyTo media \<in> set (runCallbacks os m cbs)"
    using a dispatchChain_trace [of os s e m ctx]
    by (auto simp: blockDispatchStage_def messageDispatchStage_def systemEventStage_def Let_def
        split: option.splits result.splits prod.splits if_splits)
  then show ?thesis
    using runCallbacks_sends by blast
qed

lemma handler_returns_after_envelope:
  assumes "snd (formattedBody s e m) = Returns b"
  shows "snd (handleMessageCreate os s e m) = Returned"
proof -
  have d: "snd (dispatchWithMedia os s e m mp) = Returns ()" for mp
  proof -
    obtain trB where fb: "formattedBody s e m = (trB, Returns b)"
      using assms by (cases "formattedBody s e m") auto
    obtain trR k r where rs: "resolveSession e m = (trR, k, r)"
      by (cases "resolveSession e m") auto
    show ?thesis
      using fb rs dispatchChain_returns [of os s e m "buildCtxPayload os s e m b k r mp"]
      by (cases "dispatchChain os s e m (buildCtxPayload os s e m b k r mp)")
        (simp add: dispatchWithMedia_def)
  qed
  have p: "snd (processMessage os s e m) = Returns ()"
    using d [of "snd (materializeMedia os e m)"]
    by (cases "materializeMedia os e m";
        cases "dispatchWithMedia os s e m (snd (materializeMedia os e m))")
      (simp add: processMessage_def)
  have "snd (policyAndDispatch os s e m) = Returns ()"
    using p
    by (cases "dmGate os s e m"; cases "groupGate os s e m"; cases "processMessage os s e m")
      (simp add: policyAndDispatch_def)
  then have "snd (tryBlock os s e m) = Returns ()"
    by (simp add: tryBlock_def)
  then show ?thesis
    by (cases "tryBlock os s e m") (simp add: handleMessageCreate_def withOuterCatch_def)
qed



lemma resolveSession_trace:
  "x \<in> set (fst (resolveSession e m)) \<Longrightarrow> \<exists>kind peer. x = ResolveAgentRoute kind peer"
  by (auto simp: resolveSession_def Let_def split: option.splits result.splits)

lemma formattedBody_trace:
  "x \<in> set (fst (formattedBody s e m)) \<Longrightarrow>
     x = ResolveEnvelopeFormatOptions \<or> (\<exists>args. x = FormatAgentEnvelope args)"
  by (auto simp: formattedBody_def Let_def split: option.splits result.splits prod.splits)

lemma dispatchWithMedia_trace:
  "x \<in> set (fst (dispatchWithMedia os s e m mediaPath)) \<Longrightarrow>
     x \<in> set (fst (resolveSession e m)) \<or> x \<in> set (startTyping m)
     \<or> x \<in> set (fst (formattedBody s e m))
     \<or> (\<exists>b. snd (formattedBody s e m) = Returns b
          \<and> x \<in> set (fst (dispatchChain os s e m
                (buildCtxPayload os s e m b (fst (snd (resolveSession e m)))
                   (snd (snd (resolveSession e m))) mediaPath))))"
  by (cases "resolveSession e m"; cases "formattedBody s e m")
    (auto simp: dispatchWithMedia_def split: result.splits prod.splits)

lemma dispatchWithMedia_ctx:
  assumes "DispatchReplyWithBufferedBlockDispatcher c \<in> set (fst (dispatchWithMedia os s e m mediaPath))
     \<or> DispatchInboundMessageWithBufferedDispatcher c \<in> set (fst (dispatchWithMedia os s e m mediaPath))"
  shows "MediaPath c = mediaPath \<and> MediaUrl c = mediaPath \<and> ReplyToId c = referenced_message m"
proof -
  have "\<exists>b k r. c = buildCtxPayload os s e m b k r mediaPath"
    using assms dispatchWithMedia_trace [of _ os s e m mediaPath] resolveSession_trace [of _ e m]
      formattedBody_trace [of _ s e m] dispatchChain_calls [of c os s e m]
    by (fastforce simp: startTyping_def)
  then show ?thesis
    by (auto simp: buildCtxPayload_def)
qed


lemma handle_trace_eq: "fst (handleMessageCreate os s e m) = fst (tryBlock os s e m)"
  by (cases "tryBlock os s e m"; cases "snd (tryBlock os s e m)")
    (simp_all add: handleMessageCreate_def withOuterCatch_def catchClause_def)

lemma tryBlock_trace:
  "x \<in> set (fst (tryBlock os s e m)) \<Longrightarrow>
     x \<in> set (fst (dmGate os s e m)) \<or> x \<in> set (fst (groupGate os s e m))
     \<or> x \<in> set (fst (materializeMedia os e m))
     \<or> x \<in> set (fst (dispatchWithMedia os s e m (snd (materializeMedia os e m))))"
  by (cases "dmGate os s e m"; cases "groupGate os s e m"; cases "materializeMedia os e m";
      cases "dispatchWithMedia os s e m (snd (materializeMedia os e m))")
    (auto simp: tryBlock_def policyAndDispatch_def processMessage_def split: if_splits)

lemma issuePairingChallenge_trace:
  assumes "x \<in> set (issuePairingChallenge os e m)"
  shows "x = UpsertPairingRequest (author_id m) (author_username m)
     \<or> (\<exists>code. x = SendMessage (channel_id m) (pairingReply code) None None)
     \<or> (\<exists>w. x = LogWarn w)"
proof (cases "upsertPairingRequest e")
  case None
  then show ?thesis
    using assms by (simp add: issuePairingChallenge_def)
next
  case (Some upsert)
  show ?thesis
  proof (cases "upsert (author_id m) (author_username m)")
    case (Throws err)
    then show ?thesis
      using assms Some by (auto simp: issuePairingChallenge_def logWarn_def split: if_splits)
  next
    case (Returns p)
    obtain code created where p: "p = (code, created)"
      by (cases p) auto
    show ?thesis
      using assms Some Returns p
      by (cases created; cases "sendMessage e (channel_id m) (pairingReply code) None None")
        (auto simp: issuePairingChallenge_def logWarn_def split: if_splits)
  qed
qed

lemma dmGate_trace:
  "x \<in> set (fst (dmGate os s e m)) \<Longrightarrow>
     x = UpsertPairingRequest (author_id m) (author_username m)
     \<or> (\<exists>code. x = SendMessage (channel_id m) (pairingReply code) None None)
     \<or> (\<exists>w. x = LogWarn w)"
  using issuePairingChallenge_trace [of x os e m]
  by (auto simp: dmGate_def split: if_splits)

lemma groupGate_trace:
  "x \<in> set (fst (groupGate os s e m)) \<Longrightarrow>
     x = BuildMentionRegexes \<or> (\<exists>b r. x = MatchesMentionPatterns b r)"
  by (auto simp: groupGate_def hasConfigMention_def
      split: if_splits option.splits result.splits prod.splits)

lemma materializeMedia_trace:
  "x \<in> set (fst (materializeMedia os e m)) \<Longrightarrow>
     (\<exists>u. x = FetchRemoteMedia u) \<or> (\<exists>b ct d n. x = SaveMediaBuffer b ct d n)
     \<or> (\<exists>w. x = LogWarn w)"
  by (auto simp: materializeMedia_def downloadAttachment_def logWarn_def Let_def
      split: if_splits option.splits result.splits prod.splits list.splits)

lemma handle_dispatch_ctx:
  assumes "DispatchReplyWithBufferedBlockDispatcher c \<in> set (fst (handleMessageCreate os s e m))
     \<or> DispatchInboundMessageWithBufferedDispatcher c \<in> set (fst (handleMessageCreate os s e m))"
  shows "c \<in> {c. DispatchReplyWithBufferedBlockDispatcher c
                  \<in> set (fst (dispatchWithMedia os s e m (snd (materializeMedia os e m))))
              \<or> DispatchInboundMessageWithBufferedDispatcher c
                  \<in> set (fst (dispatchWithMedia os s e m (snd (materializeMedia os e m))))}"
  using assms tryBlock_trace [of _ os s e m] dmGate_trace [of _ os s e m]
    groupGate_trace [of _ os s e m] materializeMedia_trace [of _ os e m]
  unfolding handle_trace_eq by fastforce

lemma store_independent_parts:
  "eventTs (e\<lparr>readAllowFromStore := r\<rparr>) m = eventTs e m"
  "issuePairingChallenge os (e\<lparr>readAllowFromStore := r\<rparr>) m = issuePairingChallenge os e m"
  "hasConfigMention (e\<lparr>readAllowFromStore := r\<rparr>) b = hasConfigMention e b"
  "downloadAttachment os (e\<lparr>readAllowFromStore := r\<rparr>) att = downloadAttachment os e att"
  "resolveSession (e\<lparr>readAllowFromStore := r\<rparr>) m = resolveSession e m"
  "formattedBody s (e\<lparr>readAllowFromStore := r\<rparr>) m = formattedBody s e m"
  "blockDispatchStage os s (e\<lparr>readAllowFromStore := r\<rparr>) m ctx = blockDispatchStage os s e m ctx"
  "messageDispatchStage os (e\<lparr>readAllowFromStore := r\<rparr>) m ctx = messageDispatchStage os e m ctx"
  "systemEventStage os s (e\<lparr>readAllowFromStore := r\<rparr>) m ctx = systemEventStage os s e m ctx"
  by (simp_all add: eventTs_def issuePairingChallenge_def hasConfigMention_def
      downloadAttachment_def resolveSession_def formattedBody_def blockDispatchStage_def
      messageDispatchStage_def systemEventStage_def
      cong: option.case_cong result.case_cong prod.case_cong list.case_cong if_cong)

lemma store_independent_stages:
  "dmGate os s (e\<lparr>readAllowFromStore := r\<rparr>) m = dmGate os s e m"
  "groupGate os s (e\<lparr>readAllowFromStore := r\<rparr>) m = groupGate os s e m"
  "materializeMedia os (e\<lparr>readAllowFromStore := r\<rparr>) m = materializeMedia os e m"
  "buildCtxPayload os s (e\<lparr>readAllowFromStore := r\<rparr>) m b k rt mp = buildCtxPayload os s e m b k rt mp"
  "dispatchChain os s (e\<lparr>readAllowFromStore := r\<rparr>) m ctx = dispatchChain os s e m ctx"
  by (simp_all add: dmGate_def groupGate_def materializeMedia_def buildCtxPayload_def
      dispatchChain_def store_independent_parts
      cong: option.case_cong result.case_cong prod.case_cong list.case_cong if_cong)

lemma store_independent_handler:
  "handleMessageCreate os s (e\<lparr>readAllowFromStore := r\<rparr>) m = handleMessageCreate os s e m"
  by (simp add: handleMessageCreate_def tryBlock_def policyAndDispatch_def processMessage_def
      dispatchWithMedia_def store_independent_parts store_independent_stages
      cong: option.case_cong result.case_cong prod.case_cong list.case_cong if_cong)

lemma no_store_read: "ReadAllowFromStore \<notin> set (fst (handleMessageCreate os s e m))"
proof
  assume a: "ReadAllowFromStore \<in> set (fst (handleMessageCreate os s e m))"
  let ?mp = "snd (materializeMedia os e m)"
  have "ReadAllowFromStore \<in> set (fst (dispatchWithMedia os s e m ?mp))"
    using a tryBlock_trace [of ReadAllowFromStore os s e m] dmGate_trace [of ReadAllowFromStore os s e m]
      groupGate_trace [of ReadAllowFromStore os s e m] materializeMedia_trace [of ReadAllowFromStore os e m]
    unfolding handle_trace_eq by auto
  then obtain ctx where "ReadAllowFromStore \<in> set (fst (dispatchChain os s e m ctx))"
    using dispatchWithMedia_trace [of ReadAllowFromStore os s e m ?mp]
      resolveSession_trace [of ReadAllowFromStore e m] formattedBody_trace [of ReadAllowFromStore s e m]
    by (auto simp: startTyping_def)
  then show False
    using dispatchChain_trace [of os s e m ctx]
    by (auto simp: blockDispatchStage_def messageDispatchStage_def systemEventStage_def Let_def
        split: option.splits result.splits prod.splits if_splits)
qed

lemma count_stop_parts [simp]:
  "count_list (runCallbacks os m cbs) StopTyping = 0"
  "count_list (logWarn os w) StopTyping = 0"
  "count_list (logInfo os w) StopTyping = 0"
  by (simp_all add: count_list_0_iff)

lemma dispatchChain_stop_count:
  "count_list (fst (dispatchChain os s e m ctx)) StopTyping =
     (if (\<exists>dispatch cbs. dispatchReplyWithBufferedBlockDispatcher e = Some dispatch
            \<and> dispatch ctx = (cbs, Returns ()))
         \<and> \<not> snd (blockDispatchStage os s e m ctx)
      then 2 else 1)"
proof -
  have a: "count_list (fst (blockDispatchStage os s e m ctx)) StopTyping =
     (if (\<exists>dispatch cbs. dispatchReplyWithBufferedBlockDispatcher e = Some dispatch
            \<and> dispatch ctx = (cbs, Returns ())) then 1 else 0)"
    by (auto simp: blockDispatchStage_def Let_def split: option.splits result.splits prod.splits)
  have a': "(\<exists>dispatch cbs. dispatchReplyWithBufferedBlockDispatcher e = Some dispatch
            \<and> dispatch ctx = (cbs, Returns ()))" if "snd (blockDispatchStage os s e m ctx)"
    using that
    by (auto simp: blockDispatchStage_def Let_def split: option.splits result.splits prod.splits)
  have b: "count_list (fst (messageDispatchStage os e m ctx)) StopTyping =
     (if snd (messageDispatchStage os e m ctx) then 1 else 0)"
    by (auto simp: messageDispatchStage_def split: option.splits result.splits prod.splits)
  have c: "count_list (systemEventStage os s e m ctx) StopTyping = 1"
    by (auto simp: systemEventStage_def split: option.splits result.splits)
  show ?thesis
    using a a' b c
    by (cases "blockDispatchStage os s e m ctx"; cases "messageDispatchStage os e m ctx")
      (auto simp: dispatchChain_def)
qed

lemma rejected_handler_leaks_typing:
  assumes "snd (handleMessageCreate os s e m) = Rejected r"
  shows "SetInterval (channel_id m) \<in> set (fst (handleMessageCreate os s e m))
         \<and> StopTyping \<notin> set (fst (handleMessageCreate os s e m))"
proof -
  obtain trB res where fb: "formattedBody s e m = (trB, res)"
    by (cases "formattedBody s e m") auto
  obtain err where thr: "res = Throws err"
    using assms fb handler_returns_after_envelope [of s e m _ os] by (cases res) auto
  obtain trR k rt where rs: "resolveSession e m = (trR, k, rt)"
    by (cases "resolveSession e m") auto
  have d: "dispatchWithMedia os s e m mp = (trR @ startTyping m @ trB, Throws err)" for mp
    using fb thr rs by (simp add: dispatchWithMedia_def)
  have stop_free: "StopTyping \<notin> set (trR @ startTyping m @ trB)"
    using resolveSession_trace [of StopTyping e m] formattedBody_trace [of StopTyping s e m] fb rs
    by (auto simp: startTyping_def)
  have reach: "reachesPolicyGate s e m"
  proof (rule ccontr)
    assume "\<not> reachesPolicyGate s e m"
    then have "handleMessageCreate os s e m = ([], Returned)"
      by (rule handle_not_reaching)
    with assms show False by simp
  qed
  obtain trG where gate: "(if isDm m then dmGate os s e m else groupGate os s e m) = (trG, True)"
    using assms reach
    by (cases "if isDm m then dmGate os s e m else groupGate os s e m")
      (auto simp: handle_reaching policyAndDispatch_def withOuterCatch_def split: if_splits)
  obtain trM mp where media: "materializeMedia os e m = (trM, mp)"
    by (cases "materializeMedia os e m") auto
  have h: "fst (handleMessageCreate os s e m) = trG @ trM @ trR @ startTyping m @ trB"
    using reach gate media d [of mp]
    by (simp add: handle_reaching policyAndDispatch_def processMessage_def withOuterCatch_def
        catchClause_def)
  have g: "StopTyping \<notin> set trG"
    using gate dmGate_trace [of StopTyping os s e m] groupGate_trace [of StopTyping os s e m]
    by (auto split: if_splits)
  have mm: "StopTyping \<notin> set trM"
    using media materializeMedia_trace [of StopTyping os e m] by auto
  show ?thesis
    unfolding h using g mm stop_free by (auto simp: startTyping_def)
qed

lemma stripPrefix_iff: "stripPrefix p s \<noteq> None \<longleftrightarrow> (\<exists>post. s = p @ post)"
proof
  assume "stripPrefix p s \<noteq> None"
  then have "take (length p) s = p"
    by (simp add: stripPrefix_def split: if_splits)
  then have "s = p @ drop (length p) s"
    by (metis append_take_drop_id)
  then show "\<exists>post. s = p @ post" ..
next
  assume "\<exists>post. s = p @ post"
  then show "stripPrefix p s \<noteq> None"
    by (auto simp: stripPrefix_def)
qed

lemma matchMention_iff:
  "matchMention uid s \<noteq> None \<longleftrightarrow>
     (\<exists>post. s = ''<@'' @ uid @ ''>'' @ post \<or> s = ''<@!'' @ uid @ ''>'' @ post)"
proof -
  have "matchMention uid s \<noteq> None \<longleftrightarrow>
      stripPrefix (''<@!'' @ uid @ ''>'') s \<noteq> None \<or> stripPrefix (''<@'' @ uid @ ''>'') s \<noteq> None"
    by (simp add: matchMention_def split: option.splits)
  then show ?thesis
    unfolding stripPrefix_iff by auto
qed

lemma testMention_split:
  "testMention uid s \<longleftrightarrow> (\<exists>pre post. s = pre @ post \<and> matchMention uid post \<noteq> None)"
proof (induction s)
  case Nil
  then show ?case by simp
next
  case (Cons c cs)
  show ?case
  proof
    assume "testMention uid (c # cs)"
    then consider "matchMention uid (c # cs) \<noteq> None" | "testMention uid cs"
      by auto
    then show "\<exists>pre post. c # cs = pre @ post \<and> matchMention uid post \<noteq> None"
    proof cases
      case 1
      then have "c # cs = [] @ (c # cs) \<and> matchMention uid (c # cs) \<noteq> None"
        by simp
      then show ?thesis by blast
    next
      case 2
      then obtain pre post where "cs = pre @ post" "matchMention uid post \<noteq> None"
        using Cons.IH by blast
      then have "c # cs = (c # pre) @ post \<and> matchMention uid post \<noteq> None"
        by simp
      then show ?thesis by blast
    qed
  next
    assume "\<exists>pre post. c # cs = pre @ post \<and> matchMention uid post \<noteq> None"
    then obtain pre post where p: "c # cs = pre @ post" "matchMention uid post \<noteq> None"
      by blast
    show "testMention uid (c # cs)"
    proof (cases pre)
      case Nil
      then have "post = c # cs" using p(1) by simp
      with p(2) have "matchMention uid (c # cs) \<noteq> None" by simp
      then show ?thesis by simp
    next
      case (Cons a pre')
      then have "cs = pre' @ post" using p(1) by simp
      then have "testMention uid cs"
        using Cons.IH p(2) by blast
      then show ?thesis by simp
    qed
  qed
qed

lemma testMention_iff:
  "testMention uid s \<longleftrightarrow>
     (\<exists>pre post. s = pre @ ''<@'' @ uid @ ''>'' @ post \<or> s = pre @ ''<@!'' @ uid @ ''>'' @ post)"
  unfolding testMention_split matchMention_iff by blast




lemma group_granted:
  assumes "\<not> isDm m" and "snd (groupGate os s e m)" and "reachesPolicyGate s e m"
  shows "fst (handleMessageCreate os s e m) = fst (groupGate os s e m) @ fst (processMessage os s e m)"
proof -
  obtain tr where g: "groupGate os s e m = (tr, True)"
    using assms(2) by (cases "groupGate os s e m") auto
  obtain tr' r where p: "processMessage os s e m = (tr', r)"
    by (cases "processMessage os s e m") auto
  have "tryBlock os s e m = (tr @ tr', r)"
    using assms(1,3) g p by (auto simp: tryBlock_def reachesPolicyGate_def policyAndDispatch_def)
  then show ?thesis
    using g p by (simp add: handle_trace_eq)
qed

lemmas model_defs =
  startupGraceMs_def dmPolicy_def configAllowFrom_def storeAllowFrom_def
  monitorFluxerProvider_def onReady_def isAllowed_def isWhiteSpace_def trim_def
  stripPrefix_def matchMention_def eventTs_def isStale_def isDm_def bodyText_def
  hasAttachments_def logInfo_def logWarn_def issuePairingChallenge_def dmGate_def
  hasSelfMention_def hasConfigMention_def groupGate_def mediaMaxBytes_def
  downloadAttachment_def materializeMedia_def fallbackSessionKey_def resolveSession_def
  cleanBody_def fromLabel_def startTyping_def formattedBody_def buildCtxPayload_def
  replyToModeOf_def deliver_def systemEventText_def blockDispatchStage_def
  messageDispatchStage_def systemEventStage_def dispatchChain_def dispatchWithMedia_def
  processMessage_def policyAndDispatch_def tryBlock_def catchClause_def withOuterCatch_def
  handleMessageCreate_def reachesPolicyGate_def unavailableOrThrows_def

lemmas input_defs =
  quietEnv_def optsWithPolicy_def readySession_def directMessage_def groupMessage_def
  mentionMessage_def replyMessage_def oldMessage_def malformedMessage_def
  attachmentMessage_def parsingEnv_def emptyStoreEnv_def approvedStoreEnv_def
  firstChallengeEnv_def secondChallengeEnv_def replyingEnv_def envelopeFailsEnv_def
  sinkFailsEnv_def dispatchersFailEnv_def mediaTooLargeEnv_def directCtx_def
  allowlistOpts_def unreadySession_def mentionPatternEnv_def patternMessage_def
  clockSetBackEnv_def

section \<open>The claims\<close>

subsection \<open>C1: when the pairing store is read\<close>

text \<open>
  C1 as stated: under an allowlist-consulting DM policy the merged allowlist is re-read
  from the pairing store while each message is processed, so an entry added to the store
  after session start is visible to the very next message.

  This fails. The session below starts while the store is empty; when the direct message
  of \<open>u1\<close> arrives the store holds \<open>u1\<close>, under policy \<open>allowlist\<close>. The handler ends at
  the policy gate with an empty trace, although a session started on the later store lets
  the same message through.
\<close>

theorem allowlist_reread_counterexample:
  "snd (storeAllowFrom approvedStoreEnv) = [author_id directMessage]
   \<and> dmPolicy (config (optsWithPolicy (Some ''allowlist''))) = ''allowlist''
   \<and> handleMessageCreate (optsWithPolicy (Some ''allowlist''))
        (onReady (snd (monitorFluxerProvider (optsWithPolicy (Some ''allowlist'')) emptyStoreEnv)) ''12345'')
        approvedStoreEnv directMessage
      = ([], Returned)
   \<and> handleMessageCreate (optsWithPolicy (Some ''allowlist''))
        (onReady (snd (monitorFluxerProvider (optsWithPolicy (Some ''allowlist'')) approvedStoreEnv)) ''12345'')
        approvedStoreEnv directMessage
      \<noteq> ([], Returned)"
  by (simp add: model_defs input_defs)

text \<open>
  C1, amended: under an allowlist-consulting DM policy the merged allowlist is the
  snapshot \<^verbatim>\<open>effectiveAllowFrom\<close> built once at session start: the configured entries
  \<^verbatim>\<open>dm.allowFrom\<close> followed by the entries that \<^verbatim>\<open>readAllowFromStore\<close> returned at that
  time. The access decision is membership of the sender, or of the wildcard, in that
  snapshot. The handler makes no call of \<^verbatim>\<open>readAllowFromStore\<close>, and nothing it does
  depends on what that read would return when the message arrives: an entry added to the
  store's allowlist after session start is not visible to the messages of that session.
  (The handler's other use of the pairing store, \<^verbatim>\<open>upsertPairingRequest\<close> under policy
  \<^verbatim>\<open>pairing\<close>, is the subject of C8.)
\<close>

theorem allowlist_snapshot_not_reread:
  "effectiveAllowFrom (snd (monitorFluxerProvider os e0))
     = (case dm_allowFrom (config os) of None \<Rightarrow> [] | Some entries \<Rightarrow> entries)
       @ (case readAllowFromStore e0 of
            None \<Rightarrow> []
          | Some (Returns entries) \<Rightarrow> entries
          | Some (Throws err) \<Rightarrow> [])
   \<and> (dmPolicy (config os) \<noteq> ''disabled'' \<and> dmPolicy (config os) \<noteq> ''open'' \<longrightarrow>
        snd (dmGate os s e m)
          = (author_id m \<in> set (effectiveAllowFrom s) \<or> ''*'' \<in> set (effectiveAllowFrom s)))
   \<and> handleMessageCreate os s (e\<lparr>readAllowFromStore := r\<rparr>) m = handleMessageCreate os s e m
   \<and> ReadAllowFromStore \<notin> set (fst (handleMessageCreate os s e m))"
proof -
  have snapshot: "effectiveAllowFrom (snd (monitorFluxerProvider os e0))
     = (case dm_allowFrom (config os) of None \<Rightarrow> [] | Some entries \<Rightarrow> entries)
       @ (case readAllowFromStore e0 of
            None \<Rightarrow> []
          | Some (Returns entries) \<Rightarrow> entries
          | Some (Throws err) \<Rightarrow> [])"
    by (simp add: monitorFluxerProvider_def configAllowFrom_def storeAllowFrom_def
        split: prod.splits option.splits result.splits)
  have gate: "snd (dmGate os s e m)
          = (author_id m \<in> set (effectiveAllowFrom s) \<or> ''*'' \<in> set (effectiveAllowFrom s))"
    if "dmPolicy (config os) \<noteq> ''disabled''" "dmPolicy (config os) \<noteq> ''open''"
    using that by (auto simp: dmGate_def isAllowed_def list_ex_iff)
  show ?thesis
    using snapshot gate store_independent_handler [of os s r e m] no_store_read [of os s e m]
    by blast
qed

text \<open>
  The amended C1 at a session started with \<open>u9\<close> configured and \<open>u1\<close> in the store: the
  snapshot is \<open>u9, u1\<close>; when \<open>u2\<close> is added to the store afterwards, the direct message of
  \<open>u2\<close> is still denied and the handler does exactly what it does without the addition.
\<close>

theorem allowlist_snapshot_not_reread_witness:
  "effectiveAllowFrom (onReady (snd (monitorFluxerProvider (allowlistOpts [''u9'']) approvedStoreEnv)) ''12345'')
     = [''u9'', ''u1'']
   \<and> dmPolicy (config (allowlistOpts [''u9''])) \<noteq> ''disabled''
   \<and> dmPolicy (config (allowlistOpts [''u9''])) \<noteq> ''open''
   \<and> \<not> snd (dmGate (allowlistOpts [''u9''])
        (onReady (snd (monitorFluxerProvider (allowlistOpts [''u9'']) approvedStoreEnv)) ''12345'')
        (approvedStoreEnv\<lparr>readAllowFromStore := Some (Returns [''u1'', ''u2''])\<rparr>)
        (directMessage\<lparr>author_id := ''u2''\<rparr>))
   \<and> handleMessageCreate (allowlistOpts [''u9''])
        (onReady (snd (monitorFluxerProvider (allowlistOpts [''u9'']) approvedStoreEnv)) ''12345'')
        (approvedStoreEnv\<lparr>readAllowFromStore := Some (Returns [''u1'', ''u2''])\<rparr>)
        (directMessage\<lparr>author_id := ''u2''\<rparr>)
      = handleMessageCreate (allowlistOpts [''u9''])
        (onReady (snd (monitorFluxerProvider (allowlistOpts [''u9'']) approvedStoreEnv)) ''12345'')
        approvedStoreEnv (directMessage\<lparr>author_id := ''u2''\<rparr>)"
proof -
  let ?os = "allowlistOpts [''u9'']"
  let ?s = "onReady (snd (monitorFluxerProvider ?os approvedStoreEnv)) ''12345''"
  have snap: "effectiveAllowFrom ?s = effectiveAllowFrom (snd (monitorFluxerProvider ?os approvedStoreEnv))"
    by (simp add: onReady_def)
  have fields: "dm_allowFrom (config ?os) = Some [''u9'']"
    "readAllowFromStore approvedStoreEnv = Some (Returns [''u1''])"
    "dmPolicy (config ?os) = ''allowlist''" "author_id (directMessage\<lparr>author_id := ''u2''\<rparr>) = ''u2''"
    by (simp_all add: allowlistOpts_def approvedStoreEnv_def quietEnv_def dmPolicy_def)
  show ?thesis
    using allowlist_snapshot_not_reread [where os = ?os and ?e0.0 = approvedStoreEnv and s = ?s
        and e = "approvedStoreEnv\<lparr>readAllowFromStore := Some (Returns [''u1'', ''u2''])\<rparr>"
        and r = "Some (Returns [''u1''])" and m = "directMessage\<lparr>author_id := ''u2''\<rparr>"]
      allowlist_snapshot_not_reread [where os = ?os and ?e0.0 = approvedStoreEnv and s = ?s
        and e = approvedStoreEnv
        and r = "Some (Returns [''u1'', ''u2''])" and m = "directMessage\<lparr>author_id := ''u2''\<rparr>"]
      snap fields
    by simp
qed

subsection \<open>C2: the typing indicator on the exception path\<close>

text \<open>
  C2: for every message whose processing reaches typing-indicator activation, the stop
  operation is invoked exactly once before the handler returns, on every exit path,
  exceptions that reach the outer handler boundary included.

  The code attempts this (\<^verbatim>\<open>stopTyping()\<close> after each successful dispatch, in the
  \<^verbatim>\<open>finally\<close> of the last stage and first thing in the outer catch clause) and misses it
  twice. When \<^verbatim>\<open>formatAgentEnvelope\<close> throws, the typing indicator has been started; the
  outer catch clause cannot resolve \<^verbatim>\<open>stopTyping\<close>, so the stop is invoked zero times and
  the handler rejects. When the block dispatcher succeeds on a group message and the
  system event that follows throws, the stop has already been invoked; the exception is
  caught by the first stage's catch, control falls through to the last stage, and its
  \<^verbatim>\<open>finally\<close> invokes the stop a second time. These are the only two ways:
  \<open>rejected_handler_leaks_typing\<close> and \<open>dispatchChain_stop_count\<close> above give the number of
  stops on every path.
\<close>

theorem typing_not_stopped_at_outer_catch:
  "handleMessageCreate (optsWithPolicy (Some ''open'')) readySession envelopeFailsEnv directMessage
     = ([TriggerTyping ''c1'', SetInterval ''c1'',
         FormatAgentEnvelope
           \<lparr>env_channel = ''Fluxer'', env_from = ''alice'', env_timestamp = Some 100000,
            env_envelope = [], env_body = ''hello''\<rparr>],
        Rejected ''ReferenceError: stopTyping is not defined'')
   \<and> count_list
        (fst (handleMessageCreate (optsWithPolicy None) readySession sinkFailsEnv mentionMessage))
        StopTyping = 2"
  by (simp add: model_defs input_defs)

subsection \<open>C3: staged dispatch with fallback\<close>



subsection \<open>C4: the staleness filter comes before policy\<close>

text \<open>
  C4: a message whose timestamp precedes session start minus the grace window of 10
  seconds ends the handler silently before any policy evaluation: the trace is empty, so
  in particular there is no \<^verbatim>\<open>upsertPairingRequest\<close> call.
\<close>

theorem stale_message_no_policy_evaluation:
  assumes "eventTs e m = Some t" and "t < startupMs s - startupGraceMs"
  shows "handleMessageCreate os s e m = ([], Returned) \<and> startupGraceMs = 10 * 1000"
  using assms
  by (simp add: handleMessageCreate_def tryBlock_def withOuterCatch_def isStale_def
      startupGraceMs_def)

text \<open>
  C4 at a direct message stamped 1000 in a session started at 50000, under the default
  (pairing) policy.
\<close>

theorem stale_message_no_policy_evaluation_witness:
  "eventTs parsingEnv oldMessage = Some 1000
   \<and> 1000 < startupMs readySession - startupGraceMs
   \<and> handleMessageCreate (optsWithPolicy None) readySession parsingEnv oldMessage = ([], Returned)"
proof -
  have ts: "eventTs parsingEnv oldMessage = Some 1000"
    by (simp add: eventTs_def parsingEnv_def oldMessage_def directMessage_def quietEnv_def)
  have old: "1000 < startupMs readySession - startupGraceMs"
    by (simp add: readySession_def startupGraceMs_def)
  show ?thesis
    using stale_message_no_policy_evaluation [OF ts old, of "optsWithPolicy None"] ts old by simp
qed

subsection \<open>C5: the reply-target id\<close>

text \<open>
  C5 as stated: the dispatch envelope includes the reply-target id only if
  \<^verbatim>\<open>replyToMode\<close> is enabled; with \<^verbatim>\<open>replyToMode\<close> off the envelope carries none.

  This fails. With \<^verbatim>\<open>replyToMode\<close> absent (hence off), a direct message that references
  message \<open>m0\<close> is dispatched with an envelope whose \<^verbatim>\<open>ReplyToId\<close> is \<open>m0\<close>.
\<close>

theorem envelope_reply_id_counterexample:
  "replyToModeOf (config (optsWithPolicy (Some ''open''))) = ''off''
   \<and> fst (handleMessageCreate (optsWithPolicy (Some ''open'')) readySession replyingEnv replyMessage)
     = [TriggerTyping ''c1'', SetInterval ''c1'',
        DispatchReplyWithBufferedBlockDispatcher (directCtx\<lparr>ReplyToId := Some ''m0''\<rparr>),
        SendMessage ''c1'' ''hi'' None None, StopTyping,
        LogInfo ''fluxer: dispatched reply to c1'']
   \<and> ReplyToId (directCtx\<lparr>ReplyToId := Some ''m0''\<rparr>) = Some ''m0''"
  by (simp add: model_defs input_defs)

text \<open>
  C5, amended: the envelope's \<^verbatim>\<open>ReplyToId\<close> is the id of the message that the inbound
  message references, whenever there is one, whatever \<^verbatim>\<open>replyToMode\<close> is. What
  \<^verbatim>\<open>replyToMode\<close> gates is the reply target of the outbound delivery: every message sent
  by the \<^verbatim>\<open>deliver\<close> callback of a dispatcher carries the inbound message's id as
  \<^verbatim>\<open>replyTo\<close> if \<^verbatim>\<open>replyToMode\<close> is not \<^verbatim>\<open>"off"\<close>, and no \<^verbatim>\<open>replyTo\<close> when it is off (the
  default).
\<close>

theorem reply_target_gates_delivery_not_envelope:
  "ReplyToId (buildCtxPayload os s e m body sessionKey route mediaPath) = referenced_message m
   \<and> (\<forall>c. DispatchReplyWithBufferedBlockDispatcher c \<in> set (fst (handleMessageCreate os s e m))
            \<or> DispatchInboundMessageWithBufferedDispatcher c \<in> set (fst (handleMessageCreate os s e m))
          \<longrightarrow> ReplyToId c = referenced_message m)
   \<and> (\<forall>target body replyTo media.
         SendMessage target body replyTo media \<in> set (fst (dispatchChain os s e m ctx))
         \<longrightarrow> replyTo = (if replyToModeOf (config os) \<noteq> ''off'' then Some (msg_id m) else None))
   \<and> (replyToMode (config os) = None \<or> replyToMode (config os) = Some ''off''
        \<longrightarrow> replyToModeOf (config os) = ''off'')"
proof -
  have envelope: "ReplyToId c = referenced_message m"
    if "DispatchReplyWithBufferedBlockDispatcher c \<in> set (fst (handleMessageCreate os s e m))
            \<or> DispatchInboundMessageWithBufferedDispatcher c \<in> set (fst (handleMessageCreate os s e m))"
    for c
    using handle_dispatch_ctx [OF that]
      dispatchWithMedia_ctx [of c os s e m "snd (materializeMedia os e m)"]
    by simp
  have "replyToModeOf (config os) = ''off''"
    if "replyToMode (config os) = None \<or> replyToMode (config os) = Some ''off''"
    using that by (auto simp: replyToModeOf_def)
  then show ?thesis
    using envelope dispatchChain_sends [of _ _ _ _ os s e m ctx]
    by (simp add: buildCtxPayload_def)
qed

text \<open>
  The amended C5 at the input of the counterexample: the envelope carries the referenced
  id, the delivered reply carries no reply target.
\<close>

theorem reply_target_gates_delivery_not_envelope_witness:
  "replyToMode (config (optsWithPolicy (Some ''open''))) = None
   \<and> DispatchReplyWithBufferedBlockDispatcher (directCtx\<lparr>ReplyToId := Some ''m0''\<rparr>)
       \<in> set (fst (handleMessageCreate (optsWithPolicy (Some ''open'')) readySession replyingEnv
                  replyMessage))
   \<and> ReplyToId (directCtx\<lparr>ReplyToId := Some ''m0''\<rparr>) = referenced_message replyMessage
   \<and> SendMessage ''c1'' ''hi'' None None
       \<in> set (fst (dispatchChain (optsWithPolicy (Some ''open'')) readySession replyingEnv
                  replyMessage directCtx))
   \<and> replyToModeOf (config (optsWithPolicy (Some ''open''))) = ''off''"
proof -
  have trace: "fst (handleMessageCreate (optsWithPolicy (Some ''open'')) readySession replyingEnv replyMessage)
     = [TriggerTyping ''c1'', SetInterval ''c1'',
        DispatchReplyWithBufferedBlockDispatcher (directCtx\<lparr>ReplyToId := Some ''m0''\<rparr>),
        SendMessage ''c1'' ''hi'' None None, StopTyping,
        LogInfo ''fluxer: dispatched reply to c1'']"
    by (simp add: model_defs input_defs)
  have chain: "SendMessage ''c1'' ''hi'' None None
       \<in> set (fst (dispatchChain (optsWithPolicy (Some ''open'')) readySession replyingEnv
                  replyMessage directCtx))"
    by (simp add: model_defs input_defs)
  have mode: "replyToMode (config (optsWithPolicy (Some ''open''))) = None"
    by (simp add: optsWithPolicy_def)
  show ?thesis
    using reply_target_gates_delivery_not_envelope [of "optsWithPolicy (Some ''open'')" readySession replyingEnv replyMessage
        "''b''" "''k''" None None directCtx] trace chain mode
    by auto
qed

subsection \<open>C6: mention gating of group messages\<close>

text \<open>
  C6: a group message under a group policy other than \<^verbatim>\<open>disabled\<close> (\<^verbatim>\<open>open\<close> is the
  default) whose text matches neither the adapter's own mention pattern nor a configured
  mention pattern makes no dispatch attempt: the handler returns after the mention check.
  The identity match holds exactly when the text contains \<^verbatim>\<open><@ID>\<close> or \<^verbatim>\<open><@!ID>\<close> for
  the adapter's id; while the identity is unknown it is false. The configured-pattern
  check is made whatever the identity: with the mention collaborator present,
  \<^verbatim>\<open>buildMentionRegexes\<close> and \<^verbatim>\<open>matchesMentionPatterns\<close> are called on the text and the
  answer of the latter is the check's result, which alone decides the gate while the
  identity is unknown; with the collaborator absent the check is false. A message that
  passes the gate goes on to processing.
\<close>

theorem unmentioned_group_message_not_dispatched:
  assumes "\<not> isDm m" and "groupPolicy (config os) \<noteq> Some ''disabled''"
  shows "(\<not> hasSelfMention s (bodyText m) \<and> \<not> snd (hasConfigMention e (bodyText m)) \<longrightarrow>
            handleMessageCreate os s e m =
              (if reachesPolicyGate s e m then fst (hasConfigMention e (bodyText m)) else [],
               Returned)
            \<and> filter isDispatchAttempt (fst (handleMessageCreate os s e m)) = [])
         \<and> (selfUserId s = None \<longrightarrow>
              \<not> hasSelfMention s (bodyText m)
              \<and> groupGate os s e m = hasConfigMention e (bodyText m))
         \<and> (\<forall>regexes matches.
              buildMentionRegexes e = Some (Returns regexes) \<and> matchesMentionPatterns e = Some matches
              \<longrightarrow> hasConfigMention e (bodyText m)
                    = ([BuildMentionRegexes, MatchesMentionPatterns (bodyText m) regexes],
                       matches (bodyText m) regexes = Returns True)
                  \<and> (selfUserId s = None \<longrightarrow>
                       groupGate os s e m
                         = ([BuildMentionRegexes, MatchesMentionPatterns (bodyText m) regexes],
                            matches (bodyText m) regexes = Returns True)))
         \<and> (buildMentionRegexes e = None \<longrightarrow> hasConfigMention e (bodyText m) = ([], False))
         \<and> (\<forall>uid. selfUserId s = Some uid \<and> uid \<noteq> [] \<longrightarrow>
              hasSelfMention s (bodyText m)
                = (\<exists>pre post. bodyText m = pre @ ''<@'' @ uid @ ''>'' @ post
                            \<or> bodyText m = pre @ ''<@!'' @ uid @ ''>'' @ post))
         \<and> (snd (groupGate os s e m) = (hasSelfMention s (bodyText m) \<or> snd (hasConfigMention e (bodyText m))))
         \<and> (snd (groupGate os s e m) \<and> reachesPolicyGate s e m \<longrightarrow>
              fst (handleMessageCreate os s e m)
                = fst (groupGate os s e m) @ fst (processMessage os s e m))"
proof -
  have open_policy: "(case groupPolicy (config os) of None \<Rightarrow> ''open'' | Some g \<Rightarrow> g) \<noteq> ''disabled''"
    using assms(2) by (cases "groupPolicy (config os)") auto
  have gate: "groupGate os s e m =
      (fst (hasConfigMention e (bodyText m)),
       hasSelfMention s (bodyText m) \<or> snd (hasConfigMention e (bodyText m)))"
    using open_policy by (simp add: groupGate_def split: prod.splits)
  have skipped: "handleMessageCreate os s e m =
      (if reachesPolicyGate s e m then fst (hasConfigMention e (bodyText m)) else [], Returned)"
    if "\<not> hasSelfMention s (bodyText m)" "\<not> snd (hasConfigMention e (bodyText m))"
  proof (cases "reachesPolicyGate s e m")
    case True
    then show ?thesis
      using that assms(1) gate
      by (simp add: handle_reaching policyAndDispatch_def withOuterCatch_def)
  next
    case False
    then show ?thesis by (simp add: handle_not_reaching)
  qed
  have unknown: "\<not> hasSelfMention s (bodyText m)" if "selfUserId s = None"
    using that by (simp add: hasSelfMention_def)
  have first: "(\<not> hasSelfMention s (bodyText m) \<and> \<not> snd (hasConfigMention e (bodyText m)) \<longrightarrow>
            handleMessageCreate os s e m =
              (if reachesPolicyGate s e m then fst (hasConfigMention e (bodyText m)) else [],
               Returned)
            \<and> filter isDispatchAttempt (fst (handleMessageCreate os s e m)) = [])
         \<and> (selfUserId s = None \<longrightarrow>
              \<not> hasSelfMention s (bodyText m)
              \<and> groupGate os s e m = hasConfigMention e (bodyText m))"
    using skipped unknown gate by (auto simp: hasConfigMention_no_dispatch)
  have calls: "hasConfigMention e (bodyText m)
                    = ([BuildMentionRegexes, MatchesMentionPatterns (bodyText m) regexes],
                       matches (bodyText m) regexes = Returns True)
                  \<and> (selfUserId s = None \<longrightarrow>
                       groupGate os s e m
                         = ([BuildMentionRegexes, MatchesMentionPatterns (bodyText m) regexes],
                            matches (bodyText m) regexes = Returns True))"
    if "buildMentionRegexes e = Some (Returns regexes) \<and> matchesMentionPatterns e = Some matches"
    for regexes matches
  proof -
    have "hasConfigMention e (bodyText m)
        = ([BuildMentionRegexes, MatchesMentionPatterns (bodyText m) regexes],
           matches (bodyText m) regexes = Returns True)"
      using that by (cases "matches (bodyText m) regexes") (auto simp: hasConfigMention_def)
    then show ?thesis
      using gate unknown by auto
  qed
  have absent: "hasConfigMention e (bodyText m) = ([], False)" if "buildMentionRegexes e = None"
    using that by (simp add: hasConfigMention_def)
  have self: "hasSelfMention s (bodyText m)
                = (\<exists>pre post. bodyText m = pre @ ''<@'' @ uid @ ''>'' @ post
                            \<or> bodyText m = pre @ ''<@!'' @ uid @ ''>'' @ post)"
    if "selfUserId s = Some uid \<and> uid \<noteq> []" for uid
    using that testMention_iff [of uid "bodyText m"] by (simp add: hasSelfMention_def)
  have decides: "snd (groupGate os s e m)
      = (hasSelfMention s (bodyText m) \<or> snd (hasConfigMention e (bodyText m)))"
    using gate by simp
  have goes_on: "fst (handleMessageCreate os s e m)
                = fst (groupGate os s e m) @ fst (processMessage os s e m)"
    if "snd (groupGate os s e m) \<and> reachesPolicyGate s e m"
    using that group_granted [OF assms(1)] by blast
  show ?thesis
    using first calls absent self decides goes_on by blast
qed

text \<open>
  C6 before the Ready event, with a mention collaborator that knows the pattern \<open>claw\<close>:
  \<open>hello\<close> is checked against the pattern and dropped, \<open>claw hi\<close> passes the gate. After
  the Ready event, \<open>hello <@!12345> world\<close> passes by the identity match.
\<close>

theorem unmentioned_group_message_not_dispatched_witness:
  "\<not> isDm groupMessage \<and> \<not> isDm patternMessage \<and> \<not> isDm mentionMessage
   \<and> groupPolicy (config (optsWithPolicy None)) \<noteq> Some ''disabled''
   \<and> selfUserId unreadySession = None
   \<and> buildMentionRegexes mentionPatternEnv = Some (Returns [''claw''])
   \<and> bodyText groupMessage = ''hello'' \<and> bodyText patternMessage = ''claw hi''
   \<and> \<not> hasSelfMention unreadySession (bodyText groupMessage)
   \<and> groupGate (optsWithPolicy None) unreadySession mentionPatternEnv groupMessage
       = ([BuildMentionRegexes, MatchesMentionPatterns ''hello'' [''claw'']], False)
   \<and> handleMessageCreate (optsWithPolicy None) unreadySession mentionPatternEnv groupMessage
       = ([BuildMentionRegexes, MatchesMentionPatterns ''hello'' [''claw'']], Returned)
   \<and> groupGate (optsWithPolicy None) unreadySession mentionPatternEnv patternMessage
       = ([BuildMentionRegexes, MatchesMentionPatterns ''claw hi'' [''claw'']], True)
   \<and> hasSelfMention readySession (bodyText mentionMessage)
   \<and> snd (groupGate (optsWithPolicy None) readySession quietEnv mentionMessage)"
proof -
  let ?matches = "\<lambda>body regexes. Returns (list_ex (\<lambda>r. take (length r) body = r) regexes)"
  have grp: "\<not> isDm groupMessage" "\<not> isDm patternMessage" "\<not> isDm mentionMessage"
    by (simp_all add: isDm_def groupMessage_def patternMessage_def mentionMessage_def
        directMessage_def)
  have pol: "groupPolicy (config (optsWithPolicy None)) \<noteq> Some ''disabled''"
    by (simp add: optsWithPolicy_def)
  have unknown: "selfUserId unreadySession = None"
    by (simp add: unreadySession_def)
  have known: "selfUserId readySession = Some ''12345'' \<and> ''12345'' \<noteq> []"
    by (simp add: readySession_def)
  have collab: "buildMentionRegexes mentionPatternEnv = Some (Returns [''claw''])"
    "matchesMentionPatterns mentionPatternEnv = Some ?matches"
    by (simp_all add: mentionPatternEnv_def quietEnv_def)
  have body: "bodyText groupMessage = ''hello''" "bodyText patternMessage = ''claw hi''"
    "bodyText mentionMessage = ''hello '' @ ''<@!'' @ ''12345'' @ ''>'' @ '' world''"
    by (simp_all add: bodyText_def trim_def isWhiteSpace_def groupMessage_def patternMessage_def
        mentionMessage_def directMessage_def)
  have answers: "?matches ''hello'' [''claw''] \<noteq> Returns True"
    "?matches ''claw hi'' [''claw''] = Returns True"
    by simp_all
  have reach: "reachesPolicyGate unreadySession mentionPatternEnv groupMessage"
    by (simp add: model_defs input_defs)
  have mentioned: "\<exists>pre post. bodyText mentionMessage = pre @ ''<@'' @ ''12345'' @ ''>'' @ post
       \<or> bodyText mentionMessage = pre @ ''<@!'' @ ''12345'' @ ''>'' @ post"
    using body(3) by blast
  note one = unmentioned_group_message_not_dispatched [OF grp(1) pol, where s = unreadySession and e = mentionPatternEnv]
  note two = unmentioned_group_message_not_dispatched [OF grp(2) pol, where s = unreadySession and e = mentionPatternEnv]
  note three = unmentioned_group_message_not_dispatched [OF grp(3) pol, where s = readySession and e = quietEnv]
  have g1: "groupGate (optsWithPolicy None) unreadySession mentionPatternEnv groupMessage
       = ([BuildMentionRegexes, MatchesMentionPatterns ''hello'' [''claw'']], False)"
    using one unknown collab body(1) answers(1) by simp
  have h1: "handleMessageCreate (optsWithPolicy None) unreadySession mentionPatternEnv groupMessage
       = ([BuildMentionRegexes, MatchesMentionPatterns ''hello'' [''claw'']], Returned)"
    using one unknown collab body(1) answers(1) reach by simp
  have g2: "groupGate (optsWithPolicy None) unreadySession mentionPatternEnv patternMessage
       = ([BuildMentionRegexes, MatchesMentionPatterns ''claw hi'' [''claw'']], True)"
    using two unknown collab body(2) answers(2) by simp
  have s3: "hasSelfMention readySession (bodyText mentionMessage)"
    using three known mentioned by blast
  then have g3: "snd (groupGate (optsWithPolicy None) readySession quietEnv mentionMessage)"
    using three by blast
  have n1: "\<not> hasSelfMention unreadySession (bodyText groupMessage)"
    using one unknown by blast
  show ?thesis
    using grp pol unknown collab(1) body(1,2) n1 g1 h1 g2 s3 g3 by simp
qed

subsection \<open>C7: allowlist membership\<close>

text \<open>
  C7: under policy \<^verbatim>\<open>allowlist\<close> a direct message is let through if and only if the
  sender id, or the wildcard \<^verbatim>\<open>"*"\<close>, is a member of the union of the configured entries
  (\<^verbatim>\<open>dm.allowFrom\<close>) and the entries read from the pairing store (what
  \<^verbatim>\<open>readAllowFromStore\<close> returned to the session when it started; nothing when it is
  absent or throws); membership is equality of strings. An entry of either list grants
  access whatever the other list holds. A sender that is let through goes on to
  processing; one that is not ends the handler with an empty trace.
\<close>

theorem allowlist_access_iff_union_member:
  assumes "isDm m"
    and "dm_policy (config os) = Some ''allowlist''"
    and "s = snd (monitorFluxerProvider os e0)\<lparr>selfUserId := uid\<rparr>"
  shows "(snd (dmGate os s e m) \<longleftrightarrow>
            author_id m \<in> set (case dm_allowFrom (config os) of None \<Rightarrow> [] | Some entries \<Rightarrow> entries) \<union> set (case readAllowFromStore e0 of None \<Rightarrow> [] | Some (Returns entries) \<Rightarrow> entries | Some (Throws err) \<Rightarrow> [])
            \<or> ''*'' \<in> set (case dm_allowFrom (config os) of None \<Rightarrow> [] | Some entries \<Rightarrow> entries) \<union> set (case readAllowFromStore e0 of None \<Rightarrow> [] | Some (Returns entries) \<Rightarrow> entries | Some (Throws err) \<Rightarrow> []))
         \<and> (author_id m \<in> set (case readAllowFromStore e0 of None \<Rightarrow> [] | Some (Returns entries) \<Rightarrow> entries | Some (Throws err) \<Rightarrow> []) \<longrightarrow> snd (dmGate os s e m))
         \<and> (author_id m \<in> set (case dm_allowFrom (config os) of None \<Rightarrow> [] | Some entries \<Rightarrow> entries) \<longrightarrow> snd (dmGate os s e m))
         \<and> (snd (dmGate os s e m) \<and> reachesPolicyGate s e m \<longrightarrow>
              handleMessageCreate os s e m = withOuterCatch (processMessage os s e m))
         \<and> (\<not> snd (dmGate os s e m) \<longrightarrow> handleMessageCreate os s e m = ([], Returned))"
proof -
  let ?U = "set (case dm_allowFrom (config os) of None \<Rightarrow> [] | Some entries \<Rightarrow> entries) \<union> set (case readAllowFromStore e0 of None \<Rightarrow> [] | Some (Returns entries) \<Rightarrow> entries | Some (Throws err) \<Rightarrow> [])"
  have pol: "dmPolicy (config os) = ''allowlist''"
    using assms(2) by (simp add: dmPolicy_def)
  have allowed: "isAllowed s (author_id m) \<longleftrightarrow> author_id m \<in> ?U \<or> ''*'' \<in> ?U"
    using assms(3)
    by (auto simp: isAllowed_def monitorFluxerProvider_def configAllowFrom_def storeAllowFrom_def
        list_ex_iff split: prod.splits option.splits result.splits)
  have gate: "dmGate os s e m = ([], isAllowed s (author_id m))"
    using pol by (simp add: dmGate_def)
  have granted: "handleMessageCreate os s e m = withOuterCatch (processMessage os s e m)"
    if "snd (dmGate os s e m)" "reachesPolicyGate s e m"
    using that assms(1) gate by (simp add: handle_reaching policy_granted)
  have denied: "handleMessageCreate os s e m = ([], Returned)" if "\<not> snd (dmGate os s e m)"
  proof (cases "reachesPolicyGate s e m")
    case True
    then show ?thesis
      using that assms(1) gate policy_denied [of m os s e "[]"] by (simp add: handle_reaching)
  next
    case False
    then show ?thesis by (rule handle_not_reaching)
  qed
  show ?thesis
    using allowed gate granted denied by auto
qed

text \<open>
  C7 at four sessions: \<open>u1\<close> configured and no store, \<open>u1\<close> is let through; nothing
  configured and \<open>u1\<close> in the store, \<open>u1\<close> is let through and \<open>U1\<close> is not; the wildcard
  configured, \<open>U1\<close> is let through.
\<close>

theorem allowlist_access_iff_union_member_witness:
  "isDm directMessage \<and> author_id directMessage = ''u1''
   \<and> dm_policy (config (allowlistOpts [''u1''])) = Some ''allowlist''
   \<and> dm_allowFrom (config (allowlistOpts [''u1''])) = Some [''u1'']
   \<and> readAllowFromStore quietEnv = None
   \<and> snd (dmGate (allowlistOpts [''u1''])
        (snd (monitorFluxerProvider (allowlistOpts [''u1'']) quietEnv)\<lparr>selfUserId := Some ''12345''\<rparr>)
        quietEnv directMessage)
   \<and> dm_allowFrom (config (allowlistOpts [])) = Some []
   \<and> readAllowFromStore approvedStoreEnv = Some (Returns [''u1''])
   \<and> snd (dmGate (allowlistOpts [])
        (snd (monitorFluxerProvider (allowlistOpts []) approvedStoreEnv)\<lparr>selfUserId := Some ''12345''\<rparr>)
        quietEnv directMessage)
   \<and> \<not> snd (dmGate (allowlistOpts [])
        (snd (monitorFluxerProvider (allowlistOpts []) approvedStoreEnv)\<lparr>selfUserId := Some ''12345''\<rparr>)
        quietEnv (directMessage\<lparr>author_id := ''U1''\<rparr>))
   \<and> snd (dmGate (allowlistOpts [''*''])
        (snd (monitorFluxerProvider (allowlistOpts [''*'']) quietEnv)\<lparr>selfUserId := Some ''12345''\<rparr>)
        quietEnv (directMessage\<lparr>author_id := ''U1''\<rparr>))"
proof -
  have dm: "isDm directMessage" "isDm (directMessage\<lparr>author_id := ''U1''\<rparr>)"
    by (simp_all add: isDm_def directMessage_def)
  have pol: "dm_policy (config (allowlistOpts entries)) = Some ''allowlist''" for entries
    by (simp add: allowlistOpts_def)
  have fields: "dm_allowFrom (config (allowlistOpts entries)) = Some entries"
    "readAllowFromStore quietEnv = None"
    "readAllowFromStore approvedStoreEnv = Some (Returns [''u1''])"
    "author_id directMessage = ''u1''"
    "author_id (directMessage\<lparr>author_id := ''U1''\<rparr>) = ''U1''" for entries
    by (simp_all add: allowlistOpts_def approvedStoreEnv_def quietEnv_def directMessage_def)
  show ?thesis
    using allowlist_access_iff_union_member [OF dm(1) pol [of "[''u1'']"] refl, where ?e0.0 = quietEnv
        and uid = "Some ''12345''" and e = quietEnv]
      allowlist_access_iff_union_member [OF dm(1) pol [of "[]"] refl, where ?e0.0 = approvedStoreEnv
        and uid = "Some ''12345''" and e = quietEnv]
      allowlist_access_iff_union_member [OF dm(2) pol [of "[]"] refl, where ?e0.0 = approvedStoreEnv
        and uid = "Some ''12345''" and e = quietEnv]
      allowlist_access_iff_union_member [OF dm(2) pol [of "[''*'']"] refl, where ?e0.0 = quietEnv
        and uid = "Some ''12345''" and e = quietEnv]
      dm pol fields
    by simp
qed

subsection \<open>C8: the pairing challenge\<close>

text \<open>
  C8 as stated: for every direct message under policy \<^verbatim>\<open>pairing\<close> from a sender outside
  the merged allowlist a pairing request upsert occurs, and the instructional reply is
  sent if and only if the upsert reports \<^verbatim>\<open>created = true\<close>.

  The first half fails where \<^verbatim>\<open>core\<close> does not offer \<^verbatim>\<open>upsertPairingRequest\<close>: the guard at
  line 118 skips the whole challenge, nothing is upserted and the sender gets silence.
\<close>

theorem pairing_without_upsert_counterexample:
  "isDm directMessage
   \<and> dmPolicy (config (optsWithPolicy None)) = ''pairing''
   \<and> \<not> isAllowed readySession (author_id directMessage)
   \<and> reachesPolicyGate readySession quietEnv directMessage
   \<and> upsertPairingRequest quietEnv = None
   \<and> handleMessageCreate (optsWithPolicy None) readySession quietEnv directMessage
       = ([], Returned)"
  by (simp add: model_defs input_defs)

text \<open>
  C8, amended: a direct message under policy \<^verbatim>\<open>pairing\<close> from a sender outside the
  merged allowlist is denied: the handler returns with no dispatch attempt. Provided
  \<^verbatim>\<open>core\<close> offers \<^verbatim>\<open>upsertPairingRequest\<close>, the pairing request is upserted, once; where
  it does not, nothing is upserted or sent. The instructional reply, whose text carries
  the pairing code and the approve command, is sent if and only if the upsert reports
  \<^verbatim>\<open>created = true\<close>; nothing else is sent. A second challenge for a sender whose request
  is pending, for which the store reports \<^verbatim>\<open>created = false\<close>, therefore sends no second
  reply.
\<close>

theorem pairing_reply_iff_created:
  assumes "isDm m" and "dmPolicy (config os) = ''pairing''" and "\<not> isAllowed s (author_id m)"
    and "reachesPolicyGate s e m"
  shows "snd (handleMessageCreate os s e m) = Returned
         \<and> filter isDispatchAttempt (fst (handleMessageCreate os s e m)) = []
         \<and> (upsertPairingRequest e \<noteq> None \<longrightarrow>
              count_list (fst (handleMessageCreate os s e m))
                (UpsertPairingRequest (author_id m) (author_username m)) = 1)
         \<and> (upsertPairingRequest e = None \<longrightarrow> fst (handleMessageCreate os s e m) = [])
         \<and> (\<forall>code. SendMessage (channel_id m) (pairingReply code) None None
                      \<in> set (fst (handleMessageCreate os s e m))
                    \<longleftrightarrow> (\<exists>upsert. upsertPairingRequest e = Some upsert
                          \<and> upsert (author_id m) (author_username m) = Returns (code, True)))
         \<and> (\<forall>target body replyTo media.
              SendMessage target body replyTo media \<in> set (fst (handleMessageCreate os s e m))
              \<longrightarrow> (\<exists>code. target = channel_id m \<and> body = pairingReply code))
         \<and> length (filter (\<lambda>x. \<exists>target body replyTo media. x = SendMessage target body replyTo media)
              (fst (handleMessageCreate os s e m))) \<le> 1
         \<and> (\<forall>code. \<exists>icon. pairingReply code = icon @ '' OpenClaw: access not configured.'' @ [CHR 0x0A, CHR 0x0A]
                  @ ''Pairing code: `'' @ code @ ''`'' @ [CHR 0x0A, CHR 0x0A]
                  @ ''Ask the bot owner to approve:'' @ [CHR 0x0A]
                  @ ''`openclaw pairing approve fluxer <code>`'')"
proof -
  have gate: "dmGate os s e m = (issuePairingChallenge os e m, False)"
    using assms(2,3) by (simp add: dmGate_def)
  have h: "handleMessageCreate os s e m = (issuePairingChallenge os e m, Returned)"
    using assms(1,4) gate by (simp add: handle_reaching policy_denied)
  have main: "snd (handleMessageCreate os s e m) = Returned
         \<and> filter isDispatchAttempt (fst (handleMessageCreate os s e m)) = []
         \<and> (upsertPairingRequest e \<noteq> None \<longrightarrow>
              count_list (fst (handleMessageCreate os s e m))
                (UpsertPairingRequest (author_id m) (author_username m)) = 1)
         \<and> (upsertPairingRequest e = None \<longrightarrow> fst (handleMessageCreate os s e m) = [])
         \<and> (\<forall>code. SendMessage (channel_id m) (pairingReply code) None None
                      \<in> set (fst (handleMessageCreate os s e m))
                    \<longleftrightarrow> (\<exists>upsert. upsertPairingRequest e = Some upsert
                          \<and> upsert (author_id m) (author_username m) = Returns (code, True)))
         \<and> (\<forall>target body replyTo media.
              SendMessage target body replyTo media \<in> set (fst (handleMessageCreate os s e m))
              \<longrightarrow> (\<exists>code. target = channel_id m \<and> body = pairingReply code))
         \<and> length (filter (\<lambda>x. \<exists>target body replyTo media. x = SendMessage target body replyTo media)
              (fst (handleMessageCreate os s e m))) \<le> 1"
    unfolding h
    by (cases "upsertPairingRequest e")
      (auto simp: issuePairingChallenge_def logWarn_def pairingReply_inj
        split: result.splits prod.splits)
  show ?thesis
  proof -
    have "\<exists>icon. pairingReply code = icon @ '' OpenClaw: access not configured.'' @ [CHR 0x0A, CHR 0x0A]
                  @ ''Pairing code: `'' @ code @ ''`'' @ [CHR 0x0A, CHR 0x0A]
                  @ ''Ask the bot owner to approve:'' @ [CHR 0x0A]
                  @ ''`openclaw pairing approve fluxer <code>`''" for code
      unfolding pairingReply_def
      by (rule exI [of _ "[CHR 0xF0, CHR 0x9F, CHR 0xA6, CHR 0x90]"]) simp
    then show ?thesis
      using main by blast
  qed
qed

text \<open>
  The amended C8 at a first challenge (\<^verbatim>\<open>created = true\<close>), at a second one
  (\<^verbatim>\<open>created = false\<close>) and without the upsert operation.
\<close>

theorem pairing_reply_iff_created_witness:
  "isDm directMessage \<and> dmPolicy (config (optsWithPolicy None)) = ''pairing''
   \<and> \<not> isAllowed readySession (author_id directMessage)
   \<and> reachesPolicyGate readySession quietEnv directMessage
   \<and> SendMessage ''c1'' (pairingReply ''K7Q2'') None None
       \<in> set (fst (handleMessageCreate (optsWithPolicy None) readySession firstChallengeEnv
                  directMessage))
   \<and> count_list (fst (handleMessageCreate (optsWithPolicy None) readySession firstChallengeEnv
                        directMessage)) (UpsertPairingRequest ''u1'' ''alice'') = 1
   \<and> SendMessage ''c1'' (pairingReply ''K7Q2'') None None
       \<notin> set (fst (handleMessageCreate (optsWithPolicy None) readySession secondChallengeEnv
                  directMessage))
   \<and> snd (handleMessageCreate (optsWithPolicy None) readySession secondChallengeEnv
            directMessage) = Returned
   \<and> fst (handleMessageCreate (optsWithPolicy None) readySession quietEnv directMessage) = []"
proof -
  have dm: "isDm directMessage"
    by (simp add: isDm_def directMessage_def)
  have pol: "dmPolicy (config (optsWithPolicy None)) = ''pairing''"
    by (simp add: dmPolicy_def optsWithPolicy_def)
  have unknown: "\<not> isAllowed readySession (author_id directMessage)"
    by (simp add: isAllowed_def readySession_def)
  have reach: "reachesPolicyGate readySession e directMessage" if "dateNow e = 100000" for e
    using that
    by (simp add: reachesPolicyGate_def bodyText_def trim_def isWhiteSpace_def isStale_def
        eventTs_def readySession_def directMessage_def startupGraceMs_def)
  have first: "upsertPairingRequest firstChallengeEnv = Some (\<lambda>sender name. Returns (''K7Q2'', True))"
    "dateNow firstChallengeEnv = 100000"
    by (simp_all add: firstChallengeEnv_def quietEnv_def)
  have second: "upsertPairingRequest secondChallengeEnv = Some (\<lambda>sender name. Returns (''K7Q2'', False))"
    "dateNow secondChallengeEnv = 100000"
    by (simp_all add: secondChallengeEnv_def quietEnv_def)
  have quiet: "upsertPairingRequest quietEnv = None" "dateNow quietEnv = 100000"
    by (simp_all add: quietEnv_def)
  have msg: "channel_id directMessage = ''c1''" "author_id directMessage = ''u1''"
    "author_username directMessage = ''alice''"
    by (simp_all add: directMessage_def)
  note one = pairing_reply_iff_created [OF dm pol unknown reach [OF first(2)]]
  note two = pairing_reply_iff_created [OF dm pol unknown reach [OF second(2)]]
  note three = pairing_reply_iff_created [OF dm pol unknown reach [OF quiet(2)]]
  have a: "SendMessage ''c1'' (pairingReply ''K7Q2'') None None
       \<in> set (fst (handleMessageCreate (optsWithPolicy None) readySession firstChallengeEnv
                  directMessage))"
    using one first(1) msg by simp
  have b: "count_list (fst (handleMessageCreate (optsWithPolicy None) readySession firstChallengeEnv
                        directMessage)) (UpsertPairingRequest ''u1'' ''alice'') = 1"
    using one first(1) msg by simp
  have c: "SendMessage ''c1'' (pairingReply ''K7Q2'') None None
       \<notin> set (fst (handleMessageCreate (optsWithPolicy None) readySession secondChallengeEnv
                  directMessage))"
    using two second(1) msg by simp
  have d: "snd (handleMessageCreate (optsWithPolicy None) readySession secondChallengeEnv
            directMessage) = Returned"
    using two by blast
  have e: "fst (handleMessageCreate (optsWithPolicy None) readySession quietEnv directMessage) = []"
    using three quiet(1) by blast
  show ?thesis
    using dm pol unknown reach [OF quiet(2)] a b c d e by blast
qed

subsection \<open>C9: media materialization\<close>



subsection \<open>C10: absent and malformed timestamps\<close>

text \<open>
  C10 as stated: with the timestamp field absent the event time is the handler's clock
  reading, so the staleness filter never terminates such a message.

  This fails. The session start and the event time are two readings of \<^verbatim>\<open>Date.now()\<close>
  (lines 38 and 100), a wall clock that can be set back. In a session started at 50000, a
  message without timestamp handled when the clock reads 39999 is dropped as stale; the
  same message handled at 100000 is processed.
\<close>

theorem absent_timestamp_dropped_counterexample:
  "timestamp directMessage = None
   \<and> startupMs readySession = 50000
   \<and> dateNow clockSetBackEnv = 39999
   \<and> handleMessageCreate (optsWithPolicy (Some ''open'')) readySession clockSetBackEnv directMessage
       = ([], Returned)
   \<and> handleMessageCreate (optsWithPolicy (Some ''open'')) readySession quietEnv directMessage
       = ([TriggerTyping ''c1'', SetInterval ''c1'',
           LogWarn ''fluxer: no dispatch mechanism available for message from alice'',
           StopTyping], Returned)"
  by (simp add: model_defs input_defs)

text \<open>
  C10, amended: with the timestamp field absent (or empty) the event time is the
  handler's clock reading, and the staleness filter terminates such a message exactly
  when that reading is more than the grace window of 10 seconds earlier than the reading
  taken at session start: never while the clock does not run backwards. A timestamp that
  parses to NaN is never stale. A message that is not stale goes past the staleness
  filter.
\<close>

theorem absent_timestamp_stale_iff_clock_set_back:
  "((timestamp m = None \<or> timestamp m = Some []) \<longrightarrow>
      eventTs e m = Some (dateNow e)
      \<and> (isStale s (eventTs e m) \<longleftrightarrow> dateNow e < startupMs s - 10000)
      \<and> (startupMs s \<le> dateNow e \<longrightarrow> \<not> isStale s (eventTs e m)))
   \<and> startupMs (snd (monitorFluxerProvider os e0)) = dateNow e0
   \<and> ((\<exists>str. timestamp m = Some str \<and> str \<noteq> [] \<and> dateGetTime e str = None)
        \<longrightarrow> \<not> isStale s (eventTs e m))
   \<and> (\<not> isStale s (eventTs e m) \<longrightarrow>
        tryBlock os s e m =
          (if Some (author_id m) = selfUserId s \<or> author_bot m
              \<or> (bodyText m = [] \<and> \<not> hasAttachments m)
           then ([], Returns ()) else policyAndDispatch os s e m))"
  by (auto simp: eventTs_def isStale_def tryBlock_def startupGraceMs_def
      monitorFluxerProvider_def split: prod.splits)

text \<open>
  The amended C10 at a message without timestamp, handled after session start and with
  the clock set back, and at a message whose timestamp does not parse.
\<close>

theorem absent_timestamp_stale_iff_clock_set_back_witness:
  "timestamp directMessage = None
   \<and> startupMs readySession \<le> dateNow quietEnv
   \<and> eventTs quietEnv directMessage = Some (dateNow quietEnv)
   \<and> \<not> isStale readySession (eventTs quietEnv directMessage)
   \<and> dateNow clockSetBackEnv < startupMs readySession - 10000
   \<and> isStale readySession (eventTs clockSetBackEnv directMessage)
   \<and> timestamp malformedMessage = Some ''not a date''
   \<and> dateGetTime quietEnv ''not a date'' = None
   \<and> \<not> isStale readySession (eventTs quietEnv malformedMessage)"
proof -
  have absent: "timestamp directMessage = None"
    by (simp add: directMessage_def)
  have clock: "startupMs readySession \<le> dateNow quietEnv"
    "dateNow clockSetBackEnv < startupMs readySession - 10000"
    by (simp_all add: readySession_def quietEnv_def clockSetBackEnv_def)
  have malformed: "timestamp malformedMessage = Some ''not a date''"
    "dateGetTime quietEnv ''not a date'' = None"
    by (simp_all add: malformedMessage_def directMessage_def quietEnv_def)
  note one = absent_timestamp_stale_iff_clock_set_back [where m = directMessage and e = quietEnv and s = readySession
      and os = "optsWithPolicy None" and ?e0.0 = quietEnv]
  note two = absent_timestamp_stale_iff_clock_set_back [where m = directMessage and e = clockSetBackEnv and s = readySession
      and os = "optsWithPolicy None" and ?e0.0 = quietEnv]
  note three = absent_timestamp_stale_iff_clock_set_back [where m = malformedMessage and e = quietEnv and s = readySession
      and os = "optsWithPolicy None" and ?e0.0 = quietEnv]
  have a: "eventTs quietEnv directMessage = Some (dateNow quietEnv)"
    "\<not> isStale readySession (eventTs quietEnv directMessage)"
    using one absent clock(1) by blast+
  have b: "isStale readySession (eventTs clockSetBackEnv directMessage)"
    using two absent clock(2) by blast
  have c: "\<not> isStale readySession (eventTs quietEnv malformedMessage)"
    using three malformed by blast
  show ?thesis
    using absent clock malformed a b c by blast
qed

end
